theory Spec2Isabelle
  imports Complex_Main
begin

section \<open>The camera of camera.ts, embedded in HOL\<close>

text \<open>
  The source computes on JavaScript numbers. They are modelled as \<^typ>\<open>real\<close>: every
  statement below is about exact real arithmetic, so rounding, infinities and NaN are
  outside the model. \<open>Math.PI\<close> is \<^term>\<open>pi\<close>, \<open>Math.abs\<close>, \<open>Math.min\<close> and
  \<open>Math.max\<close> are \<^term>\<open>abs\<close>, \<^term>\<open>min\<close> and \<^term>\<open>max\<close>. A division by zero
  is \<open>Infinity\<close> or \<open>NaN\<close> in the source and \<open>0\<close> in HOL, so the statements that
  depend on a quotient assume its divisor is not zero.
\<close>

subsection \<open>Data\<close>

text \<open>\<open>Point\<close> of the vector module: \<open>{x: number, y: number}\<close>.\<close>

record Point =
  x :: real
  y :: real

text \<open>
  \<open>PositionBoundary = {min: Point, max: Point}\<close> and
  \<open>ZoomLevelBoundary = {min: number, max: number}\<close>. The fields \<open>min\<close> and \<open>max\<close>
  carry a suffix, since \<^term>\<open>min\<close> and \<^term>\<open>max\<close> are the functions of HOL.
\<close>

record PositionBoundary =
  min_pos :: Point
  max_pos :: Point

record ZoomLevelBoundary =
  min_zoom :: real
  max_zoom :: real

text \<open>
  \<open>RotationBoundary = {start, end, positiveDirection, startForTieBreak}\<close>; the field
  \<open>end\<close> is \<open>end_angle\<close> here.
\<close>

record RotationBoundary =
  start :: real
  end_angle :: real
  positiveDirection :: bool
  startForTieBreak :: bool

text \<open>
  The snapshot \<open>{position, zoomLevel, rotation}\<close> that the camera passes with every
  notification.
\<close>

record CameraState =
  state_position :: Point
  state_zoomLevel :: real
  state_rotation :: real

text \<open>
  Modelled from the spec: the class \<open>CameraObserver\<close> of \<open>./camera-observer\<close> is not
  among the sources. The spec gives it three kinds of notification, pan, zoom and rotate,
  each with the origin, the destination and the snapshot; an event is one notification.
\<close>

datatype CameraEvent =
  Pan Point Point CameraState
  | Zoom real real CameraState
  | Rotate real real CameraState

text \<open>
  The class \<open>Camera\<close>. Its fields keep their names without the leading underscore.
  The field \<open>cameraObserver\<close> is the list of the notifications the observer has
  received, the latest last.
\<close>

record Camera =
  position :: Point
  zoomLevel :: real
  rotation :: real
  positionBoundary :: PositionBoundary
  zoomLevelBoundary :: ZoomLevelBoundary
  rotationBoundary :: "RotationBoundary option"
  viewPortWidth :: real
  viewPortHeight :: real
  limitEntireViewPort :: bool
  cameraObserver :: "CameraEvent list"

subsection \<open>The vector primitives\<close>

text \<open>
  The module \<open>./vector\<close> is not among the sources. The spec lists what the camera
  takes from it: vector addition and subtraction, multiplication by a scalar, rotation
  of a vector by an angle, and the intersection of two segments.
\<close>

text \<open>Modelled from the spec: \<open>vectorAddition\<close> of \<open>./vector\<close>, the sum of two vectors.\<close>

definition vectorAddition :: "Point \<Rightarrow> Point \<Rightarrow> Point" where
  "vectorAddition a b = \<lparr>x = x a + x b, y = y a + y b\<rparr>"

text \<open>
  Modelled from the spec: \<open>vectorSubtraction\<close> of \<open>./vector\<close>, the first vector minus
  the second.
\<close>

definition vectorSubtraction :: "Point \<Rightarrow> Point \<Rightarrow> Point" where
  "vectorSubtraction a b = \<lparr>x = x a - x b, y = y a - y b\<rparr>"

text \<open>
  Modelled from the spec: \<open>multiplyByScalar\<close> of \<open>./vector\<close>, both coordinates times
  the scalar.
\<close>

definition multiplyByScalar :: "Point \<Rightarrow> real \<Rightarrow> Point" where
  "multiplyByScalar a s = \<lparr>x = x a * s, y = y a * s\<rparr>"

text \<open>
  Modelled from the spec: \<open>rotateVector\<close> of \<open>./vector\<close>, the rotation of a vector by
  an angle in radians, counter-clockwise for a positive angle.
\<close>

definition rotateVector :: "Point \<Rightarrow> real \<Rightarrow> Point" where
  "rotateVector a angle =
     \<lparr>x = x a * cos angle - y a * sin angle, y = x a * sin angle + y a * cos angle\<rparr>"

subsection \<open>The constructor\<close>

definition newCamera ::
  "real \<Rightarrow> real \<Rightarrow> PositionBoundary \<Rightarrow> ZoomLevelBoundary \<Rightarrow> Camera" where
  "newCamera viewPortWidth' viewPortHeight' positionBoundary' zoomLevelBoundary' =
     \<lparr>position = \<lparr>x = 0, y = 0\<rparr>,
      zoomLevel = 1,
      rotation = 0,
      positionBoundary = positionBoundary',
      zoomLevelBoundary = zoomLevelBoundary',
      rotationBoundary = None,
      viewPortWidth = viewPortWidth',
      viewPortHeight = viewPortHeight',
      limitEntireViewPort = False,
      cameraObserver = []\<rparr>"

subsection \<open>Boundary predicates\<close>

definition withinPositionBoundary :: "Point \<Rightarrow> PositionBoundary \<Rightarrow> bool" where
  "withinPositionBoundary destination b =
     (if x destination > x (max_pos b) \<or> x destination < x (min_pos b) then False
      else if y destination > y (max_pos b) \<or> y destination < y (min_pos b) then False
      else True)"

definition withinZoomLevelBoundary :: "real \<Rightarrow> ZoomLevelBoundary \<Rightarrow> bool" where
  "withinZoomLevelBoundary z b = (z \<le> max_zoom b \<and> z \<ge> min_zoom b)"

subsection \<open>Zoom bounds\<close>

definition getMinZoomLevel :: "real \<Rightarrow> real \<Rightarrow> PositionBoundary \<Rightarrow> real" where
  "getMinZoomLevel viewPortWidth' viewPortHeight' b =
     (let minZoomLevelBasedOnWidth = viewPortWidth' / (x (max_pos b) - x (min_pos b));
          minZoomLevelBasedOnHeight = viewPortHeight' / (y (max_pos b) - y (min_pos b))
      in if minZoomLevelBasedOnWidth > minZoomLevelBasedOnHeight
         then minZoomLevelBasedOnWidth else minZoomLevelBasedOnHeight)"

subsection \<open>Clamping a point\<close>

definition simpleClamping :: "Point \<Rightarrow> PositionBoundary \<Rightarrow> Point" where
  "simpleClamping destination b =
     (if withinPositionBoundary destination b then destination
      else
        let res = destination;
            res = res\<lparr>x := min (x res) (x (max_pos b))\<rparr>;
            res = res\<lparr>x := max (x res) (x (min_pos b))\<rparr>;
            res = res\<lparr>y := min (y res) (y (max_pos b))\<rparr>;
            res = res\<lparr>y := max (y res) (y (min_pos b))\<rparr>
        in res)"

text \<open>
  The result of \<open>getLineSegmentIntersection\<close>: \<open>intersects\<close> is false
  (\<open>NoIntersection\<close>), or \<open>intersections\<close> holds a point, an interval, or a value of
  another \<open>intersectionType\<close>, which \<open>clampingV2\<close> refuses in its \<open>default\<close> branch.
\<close>

datatype Intersections =
  PointIntersection Point
  | IntervalIntersection Point Point
  | OtherIntersection

datatype LineSegmentIntersection =
  NoIntersection
  | Intersects Intersections

text \<open>The two errors \<open>clampingV2\<close> throws.\<close>

datatype ClampingError =
  ShouldHaveIntersection
  | UnknownIntersectionType

text \<open>
  \<open>clampingV2\<close>. The function \<open>getLineSegmentIntersection\<close> of \<open>./vector\<close> is not
  among the sources and is the first argument here. The calls of \<open>console.log\<close> are
  left out.
\<close>

definition clampingV2 ::
  "(Point \<Rightarrow> Point \<Rightarrow> Point \<Rightarrow> Point \<Rightarrow> LineSegmentIntersection) \<Rightarrow>
   Point \<Rightarrow> Point \<Rightarrow> PositionBoundary \<Rightarrow> ClampingError + Point" where
  "clampingV2 getLineSegmentIntersection origin destination b =
     (if withinPositionBoundary destination b then Inr destination
      else
        let topRight = \<lparr>x = x (max_pos b), y = y (max_pos b)\<rparr>;
            bottomRight = \<lparr>x = x (max_pos b), y = y (min_pos b)\<rparr>;
            topLeft = \<lparr>x = x (min_pos b), y = y (max_pos b)\<rparr>;
            bottomLeft = \<lparr>x = x (min_pos b), y = y (min_pos b)\<rparr>;
            surpassedTop = y destination > y topLeft;
            surpassedRight = x destination > x topRight;
            surpassedBottom = y destination < y bottomRight;
            surpassedLeft = x destination < x bottomLeft
        in
          if surpassedTop \<and> surpassedRight then Inr topRight
          else if surpassedTop \<and> surpassedLeft then Inr topLeft
          else if surpassedBottom \<and> surpassedRight then Inr bottomRight
          else if surpassedBottom \<and> surpassedLeft then Inr bottomLeft
          else
            let (boundaryStart, boundaryEnd) =
                  (if surpassedTop then (topLeft, topRight)
                   else if surpassedBottom then (bottomLeft, bottomRight)
                   else if surpassedLeft then (bottomLeft, topLeft)
                   else (bottomRight, topRight))
            in
              case getLineSegmentIntersection origin destination boundaryStart boundaryEnd of
                NoIntersection \<Rightarrow> Inl ShouldHaveIntersection
              | Intersects (PointIntersection intersectionPoint) \<Rightarrow> Inr intersectionPoint
              | Intersects (IntervalIntersection intervalStartPoint intervalEndPoint) \<Rightarrow>
                  Inr intervalEndPoint
              | Intersects OtherIntersection \<Rightarrow> Inl UnknownIntersectionType)"

subsection \<open>The viewport in world space\<close>

definition transformViewPort2WorldSpaceWithCameraAttributes ::
  "Point \<Rightarrow> Point \<Rightarrow> real \<Rightarrow> real \<Rightarrow> Point" where
  "transformViewPort2WorldSpaceWithCameraAttributes point cameraPosition cameraZoomLevel
       cameraRotation =
     (let scaledBack = multiplyByScalar point (1 / cameraZoomLevel);
          rotatedBack = rotateVector scaledBack cameraRotation;
          withOffset = vectorAddition rotatedBack cameraPosition
      in withOffset)"

definition viewPortWithinPositionBoundary ::
  "real \<Rightarrow> real \<Rightarrow> Point \<Rightarrow> real \<Rightarrow> real \<Rightarrow> PositionBoundary \<Rightarrow> bool" where
  "viewPortWithinPositionBoundary viewPortWidth' viewPortHeight' cameraPosition
       cameraZoomLevel cameraRotation b =
     (let topLeftCorner = \<lparr>x = - viewPortWidth' / 2, y = viewPortHeight' / 2\<rparr>;
          topRightCorner = \<lparr>x = viewPortWidth' / 2, y = viewPortHeight' / 2\<rparr>;
          bottomLeftCorner = \<lparr>x = - viewPortWidth' / 2, y = - viewPortHeight' / 2\<rparr>;
          bottomRightCorner = \<lparr>x = viewPortWidth' / 2, y = - viewPortHeight' / 2\<rparr>;
          topLeftCornerTransformed = transformViewPort2WorldSpaceWithCameraAttributes
            topLeftCorner cameraPosition cameraZoomLevel cameraRotation;
          topRightCornerTransformed = transformViewPort2WorldSpaceWithCameraAttributes
            topRightCorner cameraPosition cameraZoomLevel cameraRotation;
          bottomLeftCornerTransformed = transformViewPort2WorldSpaceWithCameraAttributes
            bottomLeftCorner cameraPosition cameraZoomLevel cameraRotation;
          bottomRightCornerTransformed = transformViewPort2WorldSpaceWithCameraAttributes
            bottomRightCorner cameraPosition cameraZoomLevel cameraRotation
      in withinPositionBoundary topLeftCornerTransformed b
         \<and> withinPositionBoundary topRightCornerTransformed b
         \<and> withinPositionBoundary bottomLeftCornerTransformed b
         \<and> withinPositionBoundary bottomRightCornerTransformed b)"

text \<open>
  The callback of \<open>diffs.forEach\<close> in \<open>clampingEntireViewPort\<close>, at index \<open>i\<close>. The
  variable \<open>delta\<close> of the source is the object \<open>diffs[0]\<close> itself, not a copy, so
  an assignment to \<open>delta.x\<close> or \<open>delta.y\<close> writes into the first element of the
  array; the array is the store here, \<open>diff\<close> is \<open>diffs ! i\<close> and \<open>delta\<close> is
  \<open>diffs ! 0\<close>, each read when the source reads it. The array is written \<open>diffs'\<close>, since \<open>diffs\<close>
  is a constant of HOL.
\<close>

fun diffStep ::
  "nat \<Rightarrow> Point list \<times> real \<times> real \<Rightarrow> Point list \<times> real \<times> real" where
  "diffStep i (diffs', maxXDiff, maxYDiff) =
     (let (diffs', maxXDiff) =
            (if abs (x (diffs' ! i)) > maxXDiff
             then (diffs'[0 := (diffs' ! 0)\<lparr>x := x (diffs' ! i)\<rparr>], abs (x (diffs' ! i)))
             else (diffs', maxXDiff));
          (diffs', maxYDiff) =
            (if abs (y (diffs' ! i)) > maxYDiff
             then (diffs'[0 := (diffs' ! 0)\<lparr>y := y (diffs' ! i)\<rparr>], abs (y (diffs' ! i)))
             else (diffs', maxYDiff))
      in (diffs', maxXDiff, maxYDiff))"

definition clampingEntireViewPort ::
  "real \<Rightarrow> real \<Rightarrow> Point \<Rightarrow> real \<Rightarrow> real \<Rightarrow> PositionBoundary \<Rightarrow> Point" where
  "clampingEntireViewPort viewPortWidth' viewPortHeight' targetCameraPosition cameraRotation
       cameraZoomLevel b =
     (let topLeftCorner = \<lparr>x = - viewPortWidth' / 2, y = viewPortHeight' / 2\<rparr>;
          topRightCorner = \<lparr>x = viewPortWidth' / 2, y = viewPortHeight' / 2\<rparr>;
          bottomLeftCorner = \<lparr>x = - viewPortWidth' / 2, y = - viewPortHeight' / 2\<rparr>;
          bottomRightCorner = \<lparr>x = viewPortWidth' / 2, y = - viewPortHeight' / 2\<rparr>;
          topLeftCornerTransformed = transformViewPort2WorldSpaceWithCameraAttributes
            topLeftCorner targetCameraPosition cameraZoomLevel cameraRotation;
          topRightCornerTransformed = transformViewPort2WorldSpaceWithCameraAttributes
            topRightCorner targetCameraPosition cameraZoomLevel cameraRotation;
          bottomLeftCornerTransformed = transformViewPort2WorldSpaceWithCameraAttributes
            bottomLeftCorner targetCameraPosition cameraZoomLevel cameraRotation;
          bottomRightCornerTransformed = transformViewPort2WorldSpaceWithCameraAttributes
            bottomRightCorner targetCameraPosition cameraZoomLevel cameraRotation
      in
        if withinPositionBoundary topLeftCornerTransformed b
           \<and> withinPositionBoundary topRightCornerTransformed b
           \<and> withinPositionBoundary bottomLeftCornerTransformed b
           \<and> withinPositionBoundary bottomRightCornerTransformed b
        then targetCameraPosition
        else
          let topLeftCornerClamped = simpleClamping topLeftCornerTransformed b;
              topRightCornerClamped = simpleClamping topRightCornerTransformed b;
              bottomLeftCornerClamped = simpleClamping bottomLeftCornerTransformed b;
              bottomRightCornerClamped = simpleClamping bottomRightCornerTransformed b;
              topLeftCornerDelta =
                vectorSubtraction topLeftCornerClamped topLeftCornerTransformed;
              topRightCornerDelta =
                vectorSubtraction topRightCornerClamped topRightCornerTransformed;
              bottomLeftCornerDelta =
                vectorSubtraction bottomLeftCornerClamped bottomLeftCornerTransformed;
              bottomRightCornerDelta =
                vectorSubtraction bottomRightCornerClamped bottomRightCornerTransformed;
              diffs' = [topLeftCornerDelta, topRightCornerDelta, bottomLeftCornerDelta,
                       bottomRightCornerDelta];
              maxXDiff = abs (x (diffs' ! 0));
              maxYDiff = abs (y (diffs' ! 0));
              (diffs', maxXDiff, maxYDiff) =
                fold diffStep [0 ..< length diffs'] (diffs', maxXDiff, maxYDiff);
              delta = diffs' ! 0
          in vectorAddition delta targetCameraPosition)"

subsection \<open>Angles\<close>

text \<open>
  The remainder operator \<open>%\<close> of the source on numbers: the quotient is truncated
  towards zero, so the result has the sign of the dividend.
\<close>

definition js_rem :: "real \<Rightarrow> real \<Rightarrow> real" where
  "js_rem a b =
     a - b * of_int (if 0 \<le> a / b then \<lfloor>a / b\<rfloor> else \<lceil>a / b\<rceil>)"

definition normalizeAngle :: "real \<Rightarrow> real" where
  "normalizeAngle angle =
     (let normalizedAngle = angle;
          normalizedAngle = js_rem normalizedAngle (2 * pi)
      in if normalizedAngle \<ge> 0 then normalizedAngle else normalizedAngle + pi * 2)"

definition angleSpan :: "real \<Rightarrow> real \<Rightarrow> real" where
  "angleSpan from to =
     (let normalizedFrom = normalizeAngle from;
          normalizedTo = normalizeAngle to;
          diff = normalizedTo - normalizedFrom
      in if abs diff \<le> pi then diff else diff - pi * 2)"

definition rotationWithinBoundary :: "real \<Rightarrow> RotationBoundary \<Rightarrow> bool" where
  "rotationWithinBoundary rotation' b =
     (let normalizedRotation = normalizeAngle rotation';
          angleFromStart = normalizedRotation - start b;
          angleFromStart =
            (if angleFromStart < 0 then angleFromStart + pi * 2 else angleFromStart);
          angleFromStart =
            (if \<not> positiveDirection b \<and> angleFromStart > 0
             then pi * 2 - angleFromStart else angleFromStart);
          angleRange = end_angle b - start b;
          angleRange = (if angleRange < 0 then angleRange + pi * 2 else angleRange);
          angleRange =
            (if \<not> positiveDirection b \<and> angleRange > 0
             then pi * 2 - angleRange else angleRange)
      in angleRange \<ge> angleFromStart)"

definition clampRotation :: "real \<Rightarrow> RotationBoundary \<Rightarrow> real" where
  "clampRotation rotation' b =
     (if rotationWithinBoundary rotation' b then rotation'
      else
        let angleFromStart = angleSpan (start b) rotation';
            angleFromEnd = angleSpan (end_angle b) rotation'
        in if abs angleFromStart < abs angleFromEnd then start b
           else if abs angleFromStart = abs angleFromEnd \<and> startForTieBreak b then start b
           else end_angle b)"

subsection \<open>The methods of the camera\<close>

text \<open>
  A method takes the camera and returns it updated. None of them throws.
\<close>

text \<open>
  Modelled from the spec: \<open>notifyPan\<close>, \<open>notifyZoom\<close> and \<open>notifyRotate\<close> of the
  observer, which is not among the sources. Each hands one notification to the
  observer: it is appended to the list.
\<close>

definition notifyPan :: "Point \<Rightarrow> Point \<Rightarrow> CameraState \<Rightarrow> Camera \<Rightarrow> Camera" where
  "notifyPan origin destination snapshot c =
     c\<lparr>cameraObserver := cameraObserver c @ [Pan origin destination snapshot]\<rparr>"

definition notifyZoom :: "real \<Rightarrow> real \<Rightarrow> CameraState \<Rightarrow> Camera \<Rightarrow> Camera" where
  "notifyZoom origin destination snapshot c =
     c\<lparr>cameraObserver := cameraObserver c @ [Zoom origin destination snapshot]\<rparr>"

definition notifyRotate :: "real \<Rightarrow> real \<Rightarrow> CameraState \<Rightarrow> Camera \<Rightarrow> Camera" where
  "notifyRotate origin destination snapshot c =
     c\<lparr>cameraObserver := cameraObserver c @ [Rotate origin destination snapshot]\<rparr>"

definition snapshotOf :: "Camera \<Rightarrow> CameraState" where
  "snapshotOf c =
     \<lparr>state_position = position c, state_zoomLevel = zoomLevel c,
      state_rotation = rotation c\<rparr>"

text \<open>The setter of \<open>rotationBoundary\<close>: it stores its argument, not the validated copy.\<close>

definition set_rotationBoundary :: "RotationBoundary \<Rightarrow> Camera \<Rightarrow> Camera" where
  "set_rotationBoundary rotationBoundary' c =
     (let validatedRotationBoundary = rotationBoundary';
          validatedRotationBoundary =
            (if start rotationBoundary' > pi * 2 \<or> start rotationBoundary' < 0
             then validatedRotationBoundary\<lparr>start := normalizeAngle (start rotationBoundary')\<rparr>
             else validatedRotationBoundary);
          validatedRotationBoundary =
            (if end_angle rotationBoundary' > pi * 2 \<or> end_angle rotationBoundary' < 0
             then validatedRotationBoundary
                    \<lparr>end_angle := normalizeAngle (end_angle rotationBoundary')\<rparr>
             else validatedRotationBoundary)
      in c\<lparr>rotationBoundary := Some rotationBoundary'\<rparr>)"

definition setPosition :: "Point \<Rightarrow> Camera \<Rightarrow> Camera" where
  "setPosition destination c =
     (if limitEntireViewPort c
         \<and> \<not> viewPortWithinPositionBoundary (viewPortWidth c) (viewPortHeight c) destination
               (zoomLevel c) (rotation c) (positionBoundary c)
      then c
      else if \<not> withinPositionBoundary destination (positionBoundary c) then c
      else
        let origin = position c;
            c = c\<lparr>position := destination\<rparr>
        in notifyPan origin (position c) (snapshotOf c) c)"

definition setPositionBy :: "Point \<Rightarrow> Camera \<Rightarrow> Camera" where
  "setPositionBy offset c =
     (let destination = vectorAddition (position c) offset
      in if limitEntireViewPort c
         then setPosition
                (clampingEntireViewPort (viewPortWidth c) (viewPortHeight c) destination
                   (rotation c) (zoomLevel c) (positionBoundary c)) c
         else
           let clampedDestination = simpleClamping destination (positionBoundary c)
           in setPosition clampedDestination c)"

definition setZoomLevel :: "real \<Rightarrow> Camera \<Rightarrow> Camera" where
  "setZoomLevel targetZoom c =
     (if \<not> withinZoomLevelBoundary targetZoom (zoomLevelBoundary c) then c
      else
        let origin = zoomLevel c;
            c = c\<lparr>zoomLevel := targetZoom\<rparr>
        in notifyZoom origin (zoomLevel c) (snapshotOf c) c)"

definition setZoomLevelBy :: "real \<Rightarrow> Camera \<Rightarrow> Camera" where
  "setZoomLevelBy deltaZoomLevel c = setZoomLevel (zoomLevel c + deltaZoomLevel) c"

definition setRotation :: "real \<Rightarrow> Camera \<Rightarrow> Camera" where
  "setRotation rotation' c =
     (case rotationBoundary c of
        Some b \<Rightarrow>
          if \<not> rotationWithinBoundary rotation' b then c
          else
            let origin = rotation c;
                c = c\<lparr>rotation := normalizeAngle rotation'\<rparr>
            in notifyRotate origin (rotation c) (snapshotOf c) c
      | None \<Rightarrow>
          let origin = rotation c;
              c = c\<lparr>rotation := normalizeAngle rotation'\<rparr>
          in notifyRotate origin (rotation c) (snapshotOf c) c)"

definition setRotationBy :: "real \<Rightarrow> Camera \<Rightarrow> Camera" where
  "setRotationBy deltaRotation c =
     (let targetAngle = normalizeAngle (rotation c + deltaRotation);
          targetAngle =
            (case rotationBoundary c of
               Some b \<Rightarrow> clampRotation targetAngle b
             | None \<Rightarrow> targetAngle)
      in setRotation targetAngle c)"

definition transformViewPort2WorldSpace :: "Camera \<Rightarrow> Point \<Rightarrow> Point" where
  "transformViewPort2WorldSpace c point =
     transformViewPort2WorldSpaceWithCameraAttributes point (position c) (zoomLevel c)
       (rotation c)"

definition transformWorldSpace2ViewPort :: "Camera \<Rightarrow> Point \<Rightarrow> Point" where
  "transformWorldSpace2ViewPort c point =
     (let withOffset = vectorSubtraction point (position c);
          scaled = multiplyByScalar withOffset (zoomLevel c);
          rotated = rotateVector scaled (- rotation c)
      in rotated)"

section \<open>Notions used in the statements\<close>

text \<open>
  A point lies within a position boundary when each coordinate is between the
  boundary's minimum and maximum.
\<close>

definition liesWithin :: "Point \<Rightarrow> PositionBoundary \<Rightarrow> bool" where
  "liesWithin p b =
     (x (min_pos b) \<le> x p \<and> x p \<le> x (max_pos b)
      \<and> y (min_pos b) \<le> y p \<and> y p \<le> y (max_pos b))"

text \<open>
  The four corners of a viewport in viewport space: top left, top right, bottom left,
  bottom right.
\<close>

definition viewPortCorners :: "real \<Rightarrow> real \<Rightarrow> Point list" where
  "viewPortCorners w h =
     [\<lparr>x = - w / 2, y = h / 2\<rparr>, \<lparr>x = w / 2, y = h / 2\<rparr>,
      \<lparr>x = - w / 2, y = - h / 2\<rparr>, \<lparr>x = w / 2, y = - h / 2\<rparr>]"

text \<open>The viewport of a camera, as the camera stands, is within its position boundary.\<close>

definition viewPortInside :: "Camera \<Rightarrow> bool" where
  "viewPortInside c =
     viewPortWithinPositionBoundary (viewPortWidth c) (viewPortHeight c) (position c)
       (zoomLevel c) (rotation c) (positionBoundary c)"

text \<open>
  The first number of greatest absolute value among \<open>cur\<close> and the list after it.
\<close>

fun largestMagnitude :: "real list \<Rightarrow> real \<Rightarrow> real" where
  "largestMagnitude [] cur = cur"
| "largestMagnitude (v # vs) cur = largestMagnitude vs (if abs v > abs cur then v else cur)"

text \<open>
  For each corner of the viewport, in the order of \<open>viewPortCorners\<close>: the corner in
  world space at the target position, clamped, minus the corner in world space.
\<close>

definition cornerDeltas ::
  "real \<Rightarrow> real \<Rightarrow> Point \<Rightarrow> real \<Rightarrow> real \<Rightarrow> PositionBoundary \<Rightarrow> Point list" where
  "cornerDeltas w h target r z b =
     map (\<lambda>corner.
            vectorSubtraction
              (simpleClamping (transformViewPort2WorldSpaceWithCameraAttributes corner target z r) b)
              (transformViewPort2WorldSpaceWithCameraAttributes corner target z r))
       (viewPortCorners w h)"

text \<open>
  A point is on the segment from \<open>a\<close> to \<open>b\<close>: it is on the line through both and
  inside their bounding box.
\<close>

definition onSegment :: "Point \<Rightarrow> Point \<Rightarrow> Point \<Rightarrow> bool" where
  "onSegment p a b =
     ((x b - x a) * (y p - y a) = (y b - y a) * (x p - x a)
      \<and> min (x a) (x b) \<le> x p \<and> x p \<le> max (x a) (x b)
      \<and> min (y a) (y b) \<le> y p \<and> y p \<le> max (y a) (y b))"

text \<open>
  Modelled from the spec: \<open>getLineSegmentIntersection\<close> of \<open>./vector\<close> is not among the
  sources. The spec calls it a segment-segment intersection returning a tagged result:
  whether the segments intersect, and when they do, an intersection of kind point or
  interval. \<open>isIntersectionOf r a b c d\<close> says that \<open>r\<close> is such a result for the
  segments from \<open>a\<close> to \<open>b\<close> and from \<open>c\<close> to \<open>d\<close>: no intersection only when the
  segments share no point, a point that is on both segments, or an interval whose two
  end points are on both segments.
\<close>

definition isIntersectionOf ::
  "LineSegmentIntersection \<Rightarrow> Point \<Rightarrow> Point \<Rightarrow> Point \<Rightarrow> Point \<Rightarrow> bool" where
  "isIntersectionOf r a b c d =
     (case r of
        NoIntersection \<Rightarrow> \<not> (\<exists>p. onSegment p a b \<and> onSegment p c d)
      | Intersects (PointIntersection p) \<Rightarrow> onSegment p a b \<and> onSegment p c d
      | Intersects (IntervalIntersection s e) \<Rightarrow>
          onSegment s a b \<and> onSegment s c d \<and> onSegment e a b \<and> onSegment e c d
      | Intersects OtherIntersection \<Rightarrow> False)"

text \<open>
  The edge \<open>(boundaryStart, boundaryEnd)\<close> that \<open>clampingV2\<close> intersects with when it
  has returned no corner, and the condition under which it returns a corner.
\<close>

definition exceededEdge :: "Point \<Rightarrow> PositionBoundary \<Rightarrow> Point \<times> Point" where
  "exceededEdge destination b =
     (if y destination > y (max_pos b)
      then (\<lparr>x = x (min_pos b), y = y (max_pos b)\<rparr>, \<lparr>x = x (max_pos b), y = y (max_pos b)\<rparr>)
      else if y destination < y (min_pos b)
      then (\<lparr>x = x (min_pos b), y = y (min_pos b)\<rparr>, \<lparr>x = x (max_pos b), y = y (min_pos b)\<rparr>)
      else if x destination < x (min_pos b)
      then (\<lparr>x = x (min_pos b), y = y (min_pos b)\<rparr>, \<lparr>x = x (min_pos b), y = y (max_pos b)\<rparr>)
      else (\<lparr>x = x (max_pos b), y = y (min_pos b)\<rparr>, \<lparr>x = x (max_pos b), y = y (max_pos b)\<rparr>))"

definition twoEdgesExceeded :: "Point \<Rightarrow> PositionBoundary \<Rightarrow> bool" where
  "twoEdgesExceeded destination b =
     ((y destination > y (max_pos b) \<or> y destination < y (min_pos b))
      \<and> (x destination > x (max_pos b) \<or> x destination < x (min_pos b)))"

subsection \<open>Examples\<close>

text \<open>
  An intersection of two segments that are not parallel, by the parameters of the
  crossing point on both; it serves as the intersection function of an example.
\<close>

definition crossingIntersection ::
  "Point \<Rightarrow> Point \<Rightarrow> Point \<Rightarrow> Point \<Rightarrow> LineSegmentIntersection" where
  "crossingIntersection a b c d =
     (let den = (x b - x a) * (y d - y c) - (y b - y a) * (x d - x c)
      in if den = 0 then NoIntersection
         else
           let t = ((x c - x a) * (y d - y c) - (y c - y a) * (x d - x c)) / den;
               u = ((x c - x a) * (y b - y a) - (y c - y a) * (x b - x a)) / den
           in if 0 \<le> t \<and> t \<le> 1 \<and> 0 \<le> u \<and> u \<le> 1
              then Intersects (PointIntersection
                     \<lparr>x = x a + t * (x b - x a), y = y a + t * (y b - y a)\<rparr>)
              else NoIntersection)"

text \<open>
  Two cameras as the constructor and the public field \<open>limitEntireViewPort\<close> give
  them: a 4 by 2 viewport in a boundary it fills exactly, and the same viewport in a
  boundary with room around it.
\<close>

definition wideCamera :: Camera where
  "wideCamera =
     (newCamera 4 2 \<lparr>min_pos = \<lparr>x = - 2, y = - 1\<rparr>, max_pos = \<lparr>x = 2, y = 1\<rparr>\<rparr>
        \<lparr>min_zoom = 1 / 10, max_zoom = 10\<rparr>)\<lparr>limitEntireViewPort := True\<rparr>"

definition roomyCamera :: Camera where
  "roomyCamera =
     (newCamera 4 2 \<lparr>min_pos = \<lparr>x = - 10, y = - 10\<rparr>, max_pos = \<lparr>x = 10, y = 10\<rparr>\<rparr>
        \<lparr>min_zoom = 1 / 10, max_zoom = 10\<rparr>)\<lparr>limitEntireViewPort := True\<rparr>"

text \<open>
  Two rotation boundaries: the quarter turn from 0 to \<open>\<pi>/2\<close>, and the half turn from
  \<open>-\<pi>/2\<close> to \<open>\<pi>/2\<close>, whose start is not in the range from 0 to \<open>2\<pi>\<close>.
\<close>

definition quarterArc :: RotationBoundary where
  "quarterArc =
     \<lparr>start = 0, end_angle = pi / 2, positiveDirection = True, startForTieBreak = True\<rparr>"

definition rightHalfArc :: RotationBoundary where
  "rightHalfArc =
     \<lparr>start = - (pi / 2), end_angle = pi / 2, positiveDirection = True,
      startForTieBreak = True\<rparr>"

section \<open>Properties\<close>

subsection \<open>The boundary predicates\<close>

lemma withinPositionBoundary_iff: "withinPositionBoundary p b = liesWithin p b"
  by (auto simp: withinPositionBoundary_def liesWithin_def)

lemma viewPortWithinPositionBoundary_iff:
  "viewPortWithinPositionBoundary w h p z r b =
     (\<forall>corner \<in> set (viewPortCorners w h).
        liesWithin (transformViewPort2WorldSpaceWithCameraAttributes corner p z r) b)"
  by (simp add: viewPortWithinPositionBoundary_def viewPortCorners_def Let_def
      withinPositionBoundary_iff)

lemmas camera_eval =
  roomyCamera_def newCamera_def setPosition_def setZoomLevel_def setRotation_def
  notifyPan_def notifyZoom_def notifyRotate_def snapshotOf_def Let_def
  viewPortWithinPositionBoundary_def withinPositionBoundary_def withinZoomLevelBoundary_def
  transformViewPort2WorldSpace_def transformViewPort2WorldSpaceWithCameraAttributes_def
  multiplyByScalar_def rotateVector_def vectorAddition_def vectorSubtraction_def
  liesWithin_def viewPortCorners_def

subsection \<open>Normalized angles\<close>

lemma js_rem_small: "0 \<le> a \<Longrightarrow> a < b \<Longrightarrow> js_rem a b = a"
proof -
  assume a: "0 \<le> a" "a < b"
  then have b: "0 < b" by simp
  have q0: "0 \<le> a / b" using a b by simp
  have q1: "a / b < 1" using a b by simp
  have "\<lfloor>a / b\<rfloor> = 0" using q0 q1 by linarith
  then show ?thesis using q0 by (simp add: js_rem_def)
qed

lemma js_rem_small_neg: "- b < a \<Longrightarrow> a < 0 \<Longrightarrow> js_rem a b = a"
proof -
  assume a: "- b < a" "a < 0"
  then have b: "0 < b" by simp
  have q0: "a / b < 0" using a b by (simp add: divide_neg_pos)
  have q1: "- 1 < a / b" using a b by (simp add: pos_less_divide_eq)
  have "\<lceil>a / b\<rceil> = 0" using q0 q1 by linarith
  then show ?thesis using q0 by (simp add: js_rem_def)
qed

lemma js_rem_self: "0 < b \<Longrightarrow> js_rem b b = 0"
  by (simp add: js_rem_def)

lemma normalizeAngle_id: "0 \<le> a \<Longrightarrow> a < 2 * pi \<Longrightarrow> normalizeAngle a = a"
  by (simp add: normalizeAngle_def js_rem_small)

lemma normalizeAngle_neg: "- (2 * pi) < a \<Longrightarrow> a < 0 \<Longrightarrow> normalizeAngle a = a + 2 * pi"
  by (simp add: normalizeAngle_def js_rem_small_neg)

lemma normalizeAngle_2pi: "normalizeAngle (2 * pi) = 0"
  by (simp add: normalizeAngle_def js_rem_self)

lemma normalizeAngle_closed:
  assumes "0 \<le> a" "a \<le> 2 * pi"
  shows "normalizeAngle a = (if a = 2 * pi then 0 else a)"
proof (cases "a = 2 * pi")
  case True
  then show ?thesis by (simp add: normalizeAngle_2pi)
next
  case False
  then have "a < 2 * pi" using assms by simp
  then show ?thesis using assms False by (simp add: normalizeAngle_id)
qed

lemma normalizeAngle_pi_half: "normalizeAngle (pi / 2) = pi / 2"
  by (rule normalizeAngle_id) (use pi_gt_zero in linarith)+

lemma normalizeAngle_pi: "normalizeAngle pi = pi"
  by (rule normalizeAngle_id) (use pi_gt_zero in linarith)+

lemma normalizeAngle_zero: "normalizeAngle 0 = 0"
  by (rule normalizeAngle_id) simp_all

lemma normalizeAngle_five_quarters: "normalizeAngle (5 * pi / 4) = 5 * pi / 4"
  by (rule normalizeAngle_id) (use pi_gt_zero in linarith)+

lemma normalizeAngle_minus_half: "normalizeAngle (- (pi / 2)) = 3 * pi / 2"
  using normalizeAngle_neg [of "- (pi / 2)"] pi_gt_zero by simp

subsection \<open>The constructor\<close>

text \<open>
  C10. The constructor sets the position to \<open>(0, 0)\<close>, the zoom level to 1 and the
  rotation to 0 and stores the boundaries it is given, whatever they are; it has no
  check and no error. So for a position boundary that does not contain \<open>(0, 0)\<close> the
  new camera's position is outside its position boundary, and for a zoom boundary that
  does not contain 1 its zoom level is outside its zoom boundary.
\<close>

theorem newCamera_ignores_boundaries:
  "position (newCamera w h pb zb) = \<lparr>x = 0, y = 0\<rparr>
   \<and> zoomLevel (newCamera w h pb zb) = 1
   \<and> rotation (newCamera w h pb zb) = 0
   \<and> positionBoundary (newCamera w h pb zb) = pb
   \<and> zoomLevelBoundary (newCamera w h pb zb) = zb
   \<and> (\<not> liesWithin \<lparr>x = 0, y = 0\<rparr> pb \<longrightarrow>
        \<not> withinPositionBoundary (position (newCamera w h pb zb))
             (positionBoundary (newCamera w h pb zb)))
   \<and> (\<not> (min_zoom zb \<le> 1 \<and> 1 \<le> max_zoom zb) \<longrightarrow>
        \<not> withinZoomLevelBoundary (zoomLevel (newCamera w h pb zb))
             (zoomLevelBoundary (newCamera w h pb zb)))"
  by (auto simp: newCamera_def withinPositionBoundary_iff withinZoomLevelBoundary_def)

theorem newCamera_ignores_boundaries_witness:
  "\<not> liesWithin \<lparr>x = 0, y = 0\<rparr> \<lparr>min_pos = \<lparr>x = 1, y = 1\<rparr>, max_pos = \<lparr>x = 2, y = 2\<rparr>\<rparr>
   \<and> \<not> (min_zoom \<lparr>min_zoom = 2, max_zoom = 3\<rparr> \<le> 1 \<and> 1 \<le> max_zoom \<lparr>min_zoom = 2, max_zoom = 3\<rparr>)
   \<and> \<not> withinPositionBoundary
         (position (newCamera 500 500 \<lparr>min_pos = \<lparr>x = 1, y = 1\<rparr>, max_pos = \<lparr>x = 2, y = 2\<rparr>\<rparr>
            \<lparr>min_zoom = 2, max_zoom = 3\<rparr>))
         (positionBoundary (newCamera 500 500
            \<lparr>min_pos = \<lparr>x = 1, y = 1\<rparr>, max_pos = \<lparr>x = 2, y = 2\<rparr>\<rparr> \<lparr>min_zoom = 2, max_zoom = 3\<rparr>))
   \<and> \<not> withinZoomLevelBoundary
         (zoomLevel (newCamera 500 500 \<lparr>min_pos = \<lparr>x = 1, y = 1\<rparr>, max_pos = \<lparr>x = 2, y = 2\<rparr>\<rparr>
            \<lparr>min_zoom = 2, max_zoom = 3\<rparr>))
         (zoomLevelBoundary (newCamera 500 500
            \<lparr>min_pos = \<lparr>x = 1, y = 1\<rparr>, max_pos = \<lparr>x = 2, y = 2\<rparr>\<rparr> \<lparr>min_zoom = 2, max_zoom = 3\<rparr>))"
proof -
  have outside: "\<not> liesWithin \<lparr>x = 0, y = 0\<rparr>
      \<lparr>min_pos = \<lparr>x = 1, y = 1\<rparr>, max_pos = \<lparr>x = 2, y = 2\<rparr>\<rparr>"
    by (simp add: liesWithin_def)
  have zoomed: "\<not> (min_zoom \<lparr>min_zoom = 2, max_zoom = 3\<rparr> \<le> 1
      \<and> 1 \<le> max_zoom \<lparr>min_zoom = 2, max_zoom = 3\<rparr>)"
    by simp
  show ?thesis
    using newCamera_ignores_boundaries
      [of 500 500 "\<lparr>min_pos = \<lparr>x = 1, y = 1\<rparr>, max_pos = \<lparr>x = 2, y = 2\<rparr>\<rparr>"
        "\<lparr>min_zoom = 2, max_zoom = 3\<rparr>"] outside zoomed
    by blast
qed

subsection \<open>Accepted and rejected calls\<close>

text \<open>
  C1. A call of \<open>setPosition\<close> that is accepted, that is, one that changes the camera,
  stores the destination and notifies the observer of the pan. The new position lies
  within the position boundary, and when \<open>limitEntireViewPort\<close> is set (and the zoom
  level is not zero) each of the four corners of the viewport, taken to world space by
  the camera at its new position, lies within the position boundary.
\<close>

theorem setPosition_accepted_within:
  assumes "setPosition d c \<noteq> c"
  shows "position (setPosition d c) = d
    \<and> cameraObserver (setPosition d c) =
        cameraObserver c @ [Pan (position c) d
          \<lparr>state_position = d, state_zoomLevel = zoomLevel c, state_rotation = rotation c\<rparr>]
    \<and> liesWithin (position (setPosition d c)) (positionBoundary (setPosition d c))
    \<and> (limitEntireViewPort c \<and> zoomLevel c \<noteq> 0 \<longrightarrow>
         (\<forall>corner \<in> set (viewPortCorners (viewPortWidth c) (viewPortHeight c)).
            liesWithin (transformViewPort2WorldSpace (setPosition d c) corner)
              (positionBoundary (setPosition d c))))"
  using assms
  by (auto simp: setPosition_def Let_def notifyPan_def snapshotOf_def
      withinPositionBoundary_iff viewPortWithinPositionBoundary_iff
      transformViewPort2WorldSpace_def split: if_splits)

theorem setPosition_accepted_within_witness:
  "setPosition \<lparr>x = 1, y = 1\<rparr> roomyCamera \<noteq> roomyCamera
   \<and> limitEntireViewPort roomyCamera \<and> zoomLevel roomyCamera \<noteq> 0
   \<and> position (setPosition \<lparr>x = 1, y = 1\<rparr> roomyCamera) = \<lparr>x = 1, y = 1\<rparr>
   \<and> liesWithin (position (setPosition \<lparr>x = 1, y = 1\<rparr> roomyCamera))
         (positionBoundary (setPosition \<lparr>x = 1, y = 1\<rparr> roomyCamera))
   \<and> liesWithin (transformViewPort2WorldSpace (setPosition \<lparr>x = 1, y = 1\<rparr> roomyCamera)
         \<lparr>x = - 2, y = 1\<rparr>) (positionBoundary (setPosition \<lparr>x = 1, y = 1\<rparr> roomyCamera))
   \<and> liesWithin (transformViewPort2WorldSpace (setPosition \<lparr>x = 1, y = 1\<rparr> roomyCamera)
         \<lparr>x = 2, y = - 1\<rparr>) (positionBoundary (setPosition \<lparr>x = 1, y = 1\<rparr> roomyCamera))"
proof -
  have accepted: "setPosition \<lparr>x = 1, y = 1\<rparr> roomyCamera \<noteq> roomyCamera"
    by (simp add: camera_eval)
  have flag: "limitEntireViewPort roomyCamera \<and> zoomLevel roomyCamera \<noteq> 0"
    by (simp add: roomyCamera_def newCamera_def)
  have size: "viewPortCorners (viewPortWidth roomyCamera) (viewPortHeight roomyCamera) =
      [\<lparr>x = - 2, y = 1\<rparr>, \<lparr>x = 2, y = 1\<rparr>, \<lparr>x = - 2, y = - 1\<rparr>, \<lparr>x = 2, y = - 1\<rparr>]"
    by (simp add: roomyCamera_def newCamera_def viewPortCorners_def)
  show ?thesis
    using setPosition_accepted_within [OF accepted] accepted flag
    by (auto simp: size)
qed

text \<open>
  C2. A call whose target violates the boundary in force returns the camera as it was:
  the position, the zoom level, the rotation and the list of notifications are
  unchanged, and no method has an error to raise. This holds for \<open>setPosition\<close> with a
  destination outside the position boundary, for \<open>setPosition\<close> under
  \<open>limitEntireViewPort\<close> with a corner of the viewport outside it (at a zoom level that
  is not zero), for \<open>setZoomLevel\<close>
  with a level outside the zoom boundary, and for \<open>setRotation\<close> with an angle outside
  the rotation boundary that is set.
\<close>

theorem rejected_call_is_noop:
  "(\<not> liesWithin d (positionBoundary c) \<longrightarrow> setPosition d c = c)
   \<and> (limitEntireViewPort c \<and> zoomLevel c \<noteq> 0
        \<and> (\<exists>corner \<in> set (viewPortCorners (viewPortWidth c) (viewPortHeight c)).
             \<not> liesWithin (transformViewPort2WorldSpaceWithCameraAttributes corner d
                  (zoomLevel c) (rotation c)) (positionBoundary c))
        \<longrightarrow> setPosition d c = c)
   \<and> (\<not> (min_zoom (zoomLevelBoundary c) \<le> z \<and> z \<le> max_zoom (zoomLevelBoundary c))
        \<longrightarrow> setZoomLevel z c = c)
   \<and> (rotationBoundary c = Some b \<and> \<not> rotationWithinBoundary r b \<longrightarrow> setRotation r c = c)"
  by (auto simp: setPosition_def setZoomLevel_def setRotation_def withinZoomLevelBoundary_def
      withinPositionBoundary_iff viewPortWithinPositionBoundary_iff)

theorem rejected_call_is_noop_witness:
  "\<not> liesWithin \<lparr>x = 15, y = 0\<rparr> (positionBoundary roomyCamera)
   \<and> setPosition \<lparr>x = 15, y = 0\<rparr> roomyCamera = roomyCamera
   \<and> limitEntireViewPort roomyCamera \<and> zoomLevel roomyCamera \<noteq> 0
   \<and> \<not> liesWithin (transformViewPort2WorldSpaceWithCameraAttributes \<lparr>x = 2, y = 1\<rparr>
          \<lparr>x = 9, y = 0\<rparr> (zoomLevel roomyCamera) (rotation roomyCamera))
        (positionBoundary roomyCamera)
   \<and> setPosition \<lparr>x = 9, y = 0\<rparr> roomyCamera = roomyCamera
   \<and> \<not> (min_zoom (zoomLevelBoundary roomyCamera) \<le> 20
        \<and> 20 \<le> max_zoom (zoomLevelBoundary roomyCamera))
   \<and> setZoomLevel 20 roomyCamera = roomyCamera
   \<and> rotationBoundary (set_rotationBoundary
          \<lparr>start = 0, end_angle = pi / 2, positiveDirection = True, startForTieBreak = True\<rparr>
          roomyCamera)
       = Some \<lparr>start = 0, end_angle = pi / 2, positiveDirection = True,
                startForTieBreak = True\<rparr>
   \<and> \<not> rotationWithinBoundary pi
         \<lparr>start = 0, end_angle = pi / 2, positiveDirection = True, startForTieBreak = True\<rparr>
   \<and> setRotation pi (set_rotationBoundary
          \<lparr>start = 0, end_angle = pi / 2, positiveDirection = True, startForTieBreak = True\<rparr>
          roomyCamera)
       = set_rotationBoundary
          \<lparr>start = 0, end_angle = pi / 2, positiveDirection = True, startForTieBreak = True\<rparr>
          roomyCamera"
proof -
  let ?arc = "\<lparr>start = 0, end_angle = pi / 2, positiveDirection = True,
    startForTieBreak = True\<rparr>"
  have npi: "normalizeAngle pi = pi"
    by (rule normalizeAngle_id) (use pi_gt_zero in linarith)+
  have p1: "\<not> liesWithin \<lparr>x = 15, y = 0\<rparr> (positionBoundary roomyCamera)"
    by (simp add: roomyCamera_def newCamera_def liesWithin_def)
  have p2: "limitEntireViewPort roomyCamera \<and> zoomLevel roomyCamera \<noteq> 0
     \<and> (\<exists>corner \<in> set (viewPortCorners (viewPortWidth roomyCamera) (viewPortHeight roomyCamera)).
          \<not> liesWithin (transformViewPort2WorldSpaceWithCameraAttributes corner
                \<lparr>x = 9, y = 0\<rparr> (zoomLevel roomyCamera) (rotation roomyCamera))
              (positionBoundary roomyCamera))"
    by (simp add: roomyCamera_def newCamera_def liesWithin_def viewPortCorners_def
        transformViewPort2WorldSpaceWithCameraAttributes_def multiplyByScalar_def
        rotateVector_def vectorAddition_def Let_def)
  have p2': "\<not> liesWithin (transformViewPort2WorldSpaceWithCameraAttributes \<lparr>x = 2, y = 1\<rparr>
          \<lparr>x = 9, y = 0\<rparr> (zoomLevel roomyCamera) (rotation roomyCamera))
        (positionBoundary roomyCamera)"
    by (simp add: roomyCamera_def newCamera_def liesWithin_def
        transformViewPort2WorldSpaceWithCameraAttributes_def multiplyByScalar_def
        rotateVector_def vectorAddition_def Let_def)
  have p3: "\<not> (min_zoom (zoomLevelBoundary roomyCamera) \<le> 20
        \<and> 20 \<le> max_zoom (zoomLevelBoundary roomyCamera))"
    by (simp add: roomyCamera_def newCamera_def)
  have p4: "rotationBoundary (set_rotationBoundary ?arc roomyCamera) = Some ?arc"
    by (simp add: set_rotationBoundary_def Let_def)
  have p5: "\<not> rotationWithinBoundary pi ?arc"
    using pi_gt_zero by (simp add: rotationWithinBoundary_def Let_def npi)
  show ?thesis
    using rejected_call_is_noop [of "\<lparr>x = 15, y = 0\<rparr>" roomyCamera 20 ?arc pi]
      rejected_call_is_noop [of "\<lparr>x = 9, y = 0\<rparr>" roomyCamera 20 ?arc pi]
      rejected_call_is_noop [of "\<lparr>x = 15, y = 0\<rparr>"
        "set_rotationBoundary ?arc roomyCamera" 20 ?arc pi]
      p1 p2 p2' p3 p4 p5
    by blast
qed

subsection \<open>The rotation boundary\<close>

text \<open>
  C3. The setter of the rotation boundary computes a copy with normalized angles and
  then stores its argument: given the half turn from \<open>-\<pi>/2\<close> to \<open>\<pi>/2\<close>, the camera
  keeps the start \<open>-\<pi>/2\<close>, which is negative.
\<close>

theorem rotationBoundary_setter_keeps_argument:
  "rotationBoundary (set_rotationBoundary rightHalfArc c) = Some rightHalfArc
   \<and> start rightHalfArc = - (pi / 2)
   \<and> start rightHalfArc < 0"
  by (simp add: set_rotationBoundary_def Let_def rightHalfArc_def)

lemma start_within:
  assumes "0 \<le> start b" "start b \<le> 2 * pi" "0 \<le> end_angle b" "end_angle b \<le> 2 * pi"
  shows "rotationWithinBoundary (start b) b"
  using assms pi_gt_zero
  by (simp add: rotationWithinBoundary_def Let_def normalizeAngle_closed)

lemma end_within:
  assumes "0 \<le> start b" "start b \<le> 2 * pi" "0 \<le> end_angle b" "end_angle b \<le> 2 * pi"
  shows "rotationWithinBoundary (end_angle b) b"
  using assms pi_gt_zero
  by (auto simp add: rotationWithinBoundary_def Let_def normalizeAngle_closed)

lemma clampRotation_cases:
  "clampRotation a b = a \<and> rotationWithinBoundary a b
   \<or> clampRotation a b = start b \<or> clampRotation a b = end_angle b"
  by (simp add: clampRotation_def Let_def)

text \<open>
  C4, amended. For every angle and every rotation boundary whose start and end are
  between 0 and \<open>2\<pi>\<close>, the clamped angle is within the boundary. So on a camera that
  holds such a boundary \<open>setRotationBy\<close> is always accepted: the rotation becomes the
  clamped target, normalized, and the observer is notified of it.
\<close>

theorem clampRotation_within_normalized:
  assumes "0 \<le> start b" "start b \<le> 2 * pi" "0 \<le> end_angle b" "end_angle b \<le> 2 * pi"
  shows "rotationWithinBoundary (clampRotation a b) b
    \<and> (rotationBoundary c = Some b \<longrightarrow>
         rotation (setRotationBy d c) =
           normalizeAngle (clampRotation (normalizeAngle (rotation c + d)) b)
         \<and> cameraObserver (setRotationBy d c) =
             cameraObserver c @
               [Rotate (rotation c)
                  (normalizeAngle (clampRotation (normalizeAngle (rotation c + d)) b))
                  \<lparr>state_position = position c, state_zoomLevel = zoomLevel c,
                   state_rotation =
                     normalizeAngle (clampRotation (normalizeAngle (rotation c + d)) b)\<rparr>])"
proof -
  have within: "rotationWithinBoundary (clampRotation t b) b" for t
    using clampRotation_cases [of t b] start_within [OF assms] end_within [OF assms]
    by auto
  show ?thesis
    using within [of a] within [of "normalizeAngle (rotation c + d)"]
    by (simp add: setRotationBy_def setRotation_def Let_def notifyRotate_def snapshotOf_def)
qed

theorem clampRotation_within_normalized_witness:
  "0 \<le> start quarterArc \<and> start quarterArc \<le> 2 * pi
   \<and> 0 \<le> end_angle quarterArc \<and> end_angle quarterArc \<le> 2 * pi
   \<and> clampRotation pi quarterArc = pi / 2
   \<and> rotationWithinBoundary (clampRotation pi quarterArc) quarterArc
   \<and> rotationBoundary (set_rotationBoundary quarterArc roomyCamera) = Some quarterArc
   \<and> rotation (setRotationBy pi (set_rotationBoundary quarterArc roomyCamera)) = pi / 2"
proof -
  have b: "0 \<le> start quarterArc" "start quarterArc \<le> 2 * pi"
    "0 \<le> end_angle quarterArc" "end_angle quarterArc \<le> 2 * pi"
    using pi_gt_zero by (simp_all add: quarterArc_def)
  have cl: "clampRotation pi quarterArc = pi / 2"
    using pi_gt_zero
    by (simp add: clampRotation_def rotationWithinBoundary_def angleSpan_def Let_def
        quarterArc_def normalizeAngle_pi normalizeAngle_pi_half normalizeAngle_zero)
  have st: "rotationBoundary (set_rotationBoundary quarterArc roomyCamera) = Some quarterArc"
    by (simp add: set_rotationBoundary_def Let_def)
  have r0: "rotation (set_rotationBoundary quarterArc roomyCamera) = 0"
    by (simp add: set_rotationBoundary_def Let_def roomyCamera_def newCamera_def)
  have target: "normalizeAngle (clampRotation (normalizeAngle
      (rotation (set_rotationBoundary quarterArc roomyCamera) + pi)) quarterArc) = pi / 2"
    by (simp add: r0 normalizeAngle_pi cl normalizeAngle_pi_half)
  have within: "rotationWithinBoundary (clampRotation pi quarterArc) quarterArc"
    using clampRotation_within_normalized [OF b, of pi
        "set_rotationBoundary quarterArc roomyCamera" pi]
    by blast
  have turned: "rotation (setRotationBy pi (set_rotationBoundary quarterArc roomyCamera)) =
      normalizeAngle (clampRotation (normalizeAngle
        (rotation (set_rotationBoundary quarterArc roomyCamera) + pi)) quarterArc)"
    using clampRotation_within_normalized [OF b, of pi
        "set_rotationBoundary quarterArc roomyCamera" pi] st
    by blast
  show ?thesis
    using b cl st within turned target by simp
qed

text \<open>
  C4 as stated fails for a boundary whose start is not normalized: with the half turn
  from \<open>-\<pi>/2\<close> to \<open>\<pi>/2\<close> the angle \<open>5\<pi>/4\<close> is clamped to the start \<open>-\<pi>/2\<close>, which
  the membership test does not accept, and \<open>setRotationBy\<close> by \<open>5\<pi>/4\<close> leaves the
  camera that was given this boundary as it was.
\<close>

lemma clampRotation_rightHalfArc: "clampRotation (5 * pi / 4) rightHalfArc = - (pi / 2)"
  using pi_gt_zero
  by (simp add: clampRotation_def rotationWithinBoundary_def angleSpan_def Let_def
      rightHalfArc_def normalizeAngle_five_quarters normalizeAngle_minus_half
      normalizeAngle_pi_half)

theorem clampRotation_outside_counterexample:
  "\<not> rotationWithinBoundary (clampRotation (5 * pi / 4) rightHalfArc) rightHalfArc
   \<and> setRotationBy (5 * pi / 4) (set_rotationBoundary rightHalfArc roomyCamera)
       = set_rotationBoundary rightHalfArc roomyCamera"
proof -
  have outside: "\<not> rotationWithinBoundary (- (pi / 2)) rightHalfArc"
    using pi_gt_zero
    by (simp add: rotationWithinBoundary_def Let_def rightHalfArc_def normalizeAngle_minus_half)
  have stored: "rotationBoundary (set_rotationBoundary rightHalfArc roomyCamera)
      = Some rightHalfArc"
    by (simp add: set_rotationBoundary_def Let_def)
  have r0: "rotation (set_rotationBoundary rightHalfArc roomyCamera) = 0"
    by (simp add: set_rotationBoundary_def Let_def roomyCamera_def newCamera_def)
  have "setRotationBy (5 * pi / 4) (set_rotationBoundary rightHalfArc roomyCamera)
       = set_rotationBoundary rightHalfArc roomyCamera"
    using outside
    by (simp add: setRotationBy_def setRotation_def Let_def stored r0
        normalizeAngle_five_quarters clampRotation_rightHalfArc)
  then show ?thesis using outside by (simp add: clampRotation_rightHalfArc)
qed

subsection \<open>The two transforms\<close>

text \<open>
  C6. For a camera of positive zoom level, whatever its position and rotation, a point
  of the viewport taken to world space and back is the point itself.
\<close>

theorem round_trip:
  assumes "0 < zoomLevel c"
  shows "transformWorldSpace2ViewPort c (transformViewPort2WorldSpace c p) = p"
proof -
  have z: "zoomLevel c \<noteq> 0" using assms by simp
  have sc: "sin (rotation c) * sin (rotation c) + cos (rotation c) * cos (rotation c) = 1"
    using sin_cos_squared_add [of "rotation c"] by (simp add: power2_eq_square)
  have ex: "x p * cos (rotation c) * cos (rotation c) + x p * sin (rotation c) * sin (rotation c) = x p"
    using sc by (metis add.commute distrib_left mult.assoc mult.right_neutral)
  have ey: "y p * cos (rotation c) * cos (rotation c) + y p * sin (rotation c) * sin (rotation c) = y p"
    using sc by (metis add.commute distrib_left mult.assoc mult.right_neutral)
  show ?thesis
    using z ex ey
    by (cases p) (simp add: transformWorldSpace2ViewPort_def transformViewPort2WorldSpace_def
        transformViewPort2WorldSpaceWithCameraAttributes_def vectorSubtraction_def
        vectorAddition_def multiplyByScalar_def rotateVector_def Let_def algebra_simps)
qed

theorem round_trip_witness:
  "0 < zoomLevel (setZoomLevel 2 roomyCamera)
   \<and> transformViewPort2WorldSpace (setZoomLevel 2 roomyCamera) \<lparr>x = 3, y = 4\<rparr>
       = \<lparr>x = 3 / 2, y = 2\<rparr>
   \<and> transformWorldSpace2ViewPort (setZoomLevel 2 roomyCamera)
         (transformViewPort2WorldSpace (setZoomLevel 2 roomyCamera) \<lparr>x = 3, y = 4\<rparr>)
       = \<lparr>x = 3, y = 4\<rparr>"
proof -
  have z: "0 < zoomLevel (setZoomLevel 2 roomyCamera)"
    by (simp add: camera_eval)
  have w: "transformViewPort2WorldSpace (setZoomLevel 2 roomyCamera) \<lparr>x = 3, y = 4\<rparr>
       = \<lparr>x = 3 / 2, y = 2\<rparr>"
    by (simp add: camera_eval)
  show ?thesis
    using round_trip [OF z, of "\<lparr>x = 3, y = 4\<rparr>"] z w by simp
qed

subsection \<open>Clamping along the segment from the origin\<close>

lemma convex_between:
  fixes u v t :: real
  assumes "0 \<le> t" "t \<le> 1"
  shows "min u v \<le> u + t * (v - u) \<and> u + t * (v - u) \<le> max u v"
proof (cases "u \<le> v")
  case True
  then have d: "0 \<le> v - u" by simp
  have "0 \<le> t * (v - u)" using assms d by simp
  moreover have "t * (v - u) \<le> v - u" using assms d by (simp add: mult_left_le_one_le)
  ultimately show ?thesis using True by (simp add: min_def max_def)
next
  case False
  then have d: "0 \<le> u - v" by simp
  have "0 \<le> t * (u - v)" using assms d by simp
  moreover have "t * (u - v) \<le> u - v" using assms d by (simp add: mult_left_le_one_le)
  ultimately show ?thesis using False by (simp add: min_def max_def algebra_simps)
qed

lemma crossing_horizontal:
  assumes "lo \<le> x a" "x a \<le> hi" "lo \<le> x d" "x d \<le> hi"
    and "(y a \<le> h \<and> h < y d) \<or> (y d < h \<and> h \<le> y a)"
  shows "\<exists>p. onSegment p a d \<and> onSegment p \<lparr>x = lo, y = h\<rparr> \<lparr>x = hi, y = h\<rparr>"
proof -
  define t where "t = (h - y a) / (y d - y a)"
  define p where "p = \<lparr>x = x a + t * (x d - x a), y = h\<rparr>"
  have ne: "y d - y a \<noteq> 0" using assms(5) by auto
  have t0: "0 \<le> t" using assms(5) unfolding t_def
    by (auto simp: divide_nonneg_nonneg divide_nonpos_neg)
  have t1: "t \<le> 1" using assms(5) unfolding t_def
    by (auto simp: divide_le_eq_1)
  have ty: "t * (y d - y a) = h - y a" using ne by (simp add: t_def)
  have col: "(x d - x a) * (h - y a) = (y d - y a) * (t * (x d - x a))"
  proof -
    have "(x d - x a) * (h - y a) = (x d - x a) * (t * (y d - y a))"
      by (simp only: ty)
    also have "\<dots> = (y d - y a) * (t * (x d - x a))"
      by (simp only: mult_ac)
    finally show ?thesis .
  qed
  have bx: "min (x a) (x d) \<le> x a + t * (x d - x a) \<and> x a + t * (x d - x a) \<le> max (x a) (x d)"
    using t0 t1 by (rule convex_between)
  have by': "min (y a) (y d) \<le> h \<and> h \<le> max (y a) (y d)"
    using assms(5) by (auto simp: min_def max_def)
  have lohi: "lo \<le> x a + t * (x d - x a) \<and> x a + t * (x d - x a) \<le> hi"
    using bx assms(1-4) by (auto simp: min_def max_def split: if_splits)
  have "onSegment p a d"
    using col bx by' by (simp add: onSegment_def p_def)
  moreover have "onSegment p \<lparr>x = lo, y = h\<rparr> \<lparr>x = hi, y = h\<rparr>"
    using lohi by (simp add: onSegment_def p_def min_def max_def)
  ultimately show ?thesis by blast
qed

lemma crossing_vertical:
  assumes "lo \<le> y a" "y a \<le> hi" "lo \<le> y d" "y d \<le> hi"
    and "(x a \<le> v \<and> v < x d) \<or> (x d < v \<and> v \<le> x a)"
  shows "\<exists>p. onSegment p a d \<and> onSegment p \<lparr>x = v, y = lo\<rparr> \<lparr>x = v, y = hi\<rparr>"
proof -
  define t where "t = (v - x a) / (x d - x a)"
  define p where "p = \<lparr>x = v, y = y a + t * (y d - y a)\<rparr>"
  have ne: "x d - x a \<noteq> 0" using assms(5) by auto
  have t0: "0 \<le> t" using assms(5) unfolding t_def
    by (auto simp: divide_nonneg_nonneg divide_nonpos_neg)
  have t1: "t \<le> 1" using assms(5) unfolding t_def
    by (auto simp: divide_le_eq_1)
  have tx: "t * (x d - x a) = v - x a" using ne by (simp add: t_def)
  have col: "(x d - x a) * (t * (y d - y a)) = (y d - y a) * (v - x a)"
  proof -
    have "(x d - x a) * (t * (y d - y a)) = (y d - y a) * (t * (x d - x a))"
      by (simp only: mult_ac)
    also have "\<dots> = (y d - y a) * (v - x a)"
      by (simp only: tx)
    finally show ?thesis .
  qed
  have by': "min (y a) (y d) \<le> y a + t * (y d - y a) \<and> y a + t * (y d - y a) \<le> max (y a) (y d)"
    using t0 t1 by (rule convex_between)
  have bx: "min (x a) (x d) \<le> v \<and> v \<le> max (x a) (x d)"
    using assms(5) by (auto simp: min_def max_def)
  have lohi: "lo \<le> y a + t * (y d - y a) \<and> y a + t * (y d - y a) \<le> hi"
    using by' assms(1-4) by (auto simp: min_def max_def split: if_splits)
  have "onSegment p a d"
    using col bx by' by (simp add: onSegment_def p_def)
  moreover have "onSegment p \<lparr>x = v, y = lo\<rparr> \<lparr>x = v, y = hi\<rparr>"
    using lohi by (simp add: onSegment_def p_def min_def max_def)
  ultimately show ?thesis by blast
qed

lemma exceededEdge_crossed:
  assumes "liesWithin origin b" "\<not> liesWithin destination b"
    "\<not> twoEdgesExceeded destination b"
  shows "\<exists>p. onSegment p origin destination
    \<and> onSegment p (fst (exceededEdge destination b)) (snd (exceededEdge destination b))"
proof -
  consider (top) "y destination > y (max_pos b)"
    | (bottom) "\<not> y destination > y (max_pos b)" "y destination < y (min_pos b)"
    | (left) "\<not> y destination > y (max_pos b)" "\<not> y destination < y (min_pos b)"
        "x destination < x (min_pos b)"
    | (right) "\<not> y destination > y (max_pos b)" "\<not> y destination < y (min_pos b)"
        "\<not> x destination < x (min_pos b)" "x destination > x (max_pos b)"
    using assms(2) unfolding liesWithin_def by linarith
  then show ?thesis
  proof cases
    case top
    then have "\<exists>p. onSegment p origin destination
        \<and> onSegment p \<lparr>x = x (min_pos b), y = y (max_pos b)\<rparr> \<lparr>x = x (max_pos b), y = y (max_pos b)\<rparr>"
      using assms by (intro crossing_horizontal) (auto simp: liesWithin_def twoEdgesExceeded_def)
    then show ?thesis using top by (simp add: exceededEdge_def)
  next
    case bottom
    then have "\<exists>p. onSegment p origin destination
        \<and> onSegment p \<lparr>x = x (min_pos b), y = y (min_pos b)\<rparr> \<lparr>x = x (max_pos b), y = y (min_pos b)\<rparr>"
      using assms by (intro crossing_horizontal) (auto simp: liesWithin_def twoEdgesExceeded_def)
    then show ?thesis using bottom by (simp add: exceededEdge_def)
  next
    case left
    then have "\<exists>p. onSegment p origin destination
        \<and> onSegment p \<lparr>x = x (min_pos b), y = y (min_pos b)\<rparr> \<lparr>x = x (min_pos b), y = y (max_pos b)\<rparr>"
      using assms by (intro crossing_vertical) (auto simp: liesWithin_def twoEdgesExceeded_def)
    then show ?thesis using left by (simp add: exceededEdge_def)
  next
    case right
    then have "\<exists>p. onSegment p origin destination
        \<and> onSegment p \<lparr>x = x (max_pos b), y = y (min_pos b)\<rparr> \<lparr>x = x (max_pos b), y = y (max_pos b)\<rparr>"
      using assms by (intro crossing_vertical) (auto simp: liesWithin_def twoEdgesExceeded_def)
    then show ?thesis using right by (simp add: exceededEdge_def)
  qed
qed

lemma onSegment_same_height:
  assumes "onSegment p a d" "onSegment q a d" "y p = y q" "y d \<noteq> y a"
  shows "p = q"
proof -
  have "(y d - y a) * (x p - x a) = (y d - y a) * (x q - x a)"
    using assms(1-3) by (simp add: onSegment_def)
  then have "x p = x q" using assms(4) by simp
  then show ?thesis using assms(3) by simp
qed

lemma onSegment_same_abscissa:
  assumes "onSegment p a d" "onSegment q a d" "x p = x q" "x d \<noteq> x a"
  shows "p = q"
proof -
  have "(x d - x a) * (y p - y a) = (x d - x a) * (y q - y a)"
    using assms(1-3) by (simp add: onSegment_def)
  then have "y p = y q" using assms(4) by simp
  then show ?thesis using assms(3) by simp
qed

lemma onSegment_horizontal: "onSegment p \<lparr>x = lo, y = h\<rparr> \<lparr>x = hi, y = h\<rparr> \<Longrightarrow> y p = h"
  by (simp add: onSegment_def)

lemma onSegment_vertical: "onSegment p \<lparr>x = v, y = lo\<rparr> \<lparr>x = v, y = hi\<rparr> \<Longrightarrow> x p = v"
  by (simp add: onSegment_def)

lemma exceededEdge_crossed_once:
  assumes "liesWithin origin b" "\<not> liesWithin destination b"
    "\<not> twoEdgesExceeded destination b"
    and p: "onSegment p origin destination"
      "onSegment p (fst (exceededEdge destination b)) (snd (exceededEdge destination b))"
    and q: "onSegment q origin destination"
      "onSegment q (fst (exceededEdge destination b)) (snd (exceededEdge destination b))"
  shows "p = q"
proof -
  consider (top) "y destination > y (max_pos b)"
    | (bottom) "\<not> y destination > y (max_pos b)" "y destination < y (min_pos b)"
    | (left) "\<not> y destination > y (max_pos b)" "\<not> y destination < y (min_pos b)"
        "x destination < x (min_pos b)"
    | (right) "\<not> y destination > y (max_pos b)" "\<not> y destination < y (min_pos b)"
        "\<not> x destination < x (min_pos b)" "x destination > x (max_pos b)"
    using assms(2) unfolding liesWithin_def by linarith
  then show ?thesis
  proof cases
    case top
    then have "y p = y q"
      using p(2) q(2) by (simp add: exceededEdge_def onSegment_horizontal)
    moreover have "y destination \<noteq> y origin"
      using top assms(1) by (auto simp: liesWithin_def)
    ultimately show ?thesis using p(1) q(1) by (rule onSegment_same_height [rotated 2])
  next
    case bottom
    then have "y p = y q"
      using p(2) q(2) by (simp add: exceededEdge_def onSegment_horizontal)
    moreover have "y destination \<noteq> y origin"
      using bottom assms(1) by (auto simp: liesWithin_def)
    ultimately show ?thesis using p(1) q(1) by (rule onSegment_same_height [rotated 2])
  next
    case left
    then have "x p = x q"
      using p(2) q(2) by (simp add: exceededEdge_def onSegment_vertical)
    moreover have "x destination \<noteq> x origin"
      using left assms(1) by (auto simp: liesWithin_def)
    ultimately show ?thesis using p(1) q(1) by (rule onSegment_same_abscissa [rotated 2])
  next
    case right
    then have "x p = x q"
      using p(2) q(2) by (simp add: exceededEdge_def onSegment_vertical)
    moreover have "x destination \<noteq> x origin"
      using right assms(1) by (auto simp: liesWithin_def)
    ultimately show ?thesis using p(1) q(1) by (rule onSegment_same_abscissa [rotated 2])
  qed
qed

lemma clampingV2_single_edge:
  assumes "\<not> withinPositionBoundary destination b" "\<not> twoEdgesExceeded destination b"
  shows "clampingV2 isect origin destination b =
     (case isect origin destination (fst (exceededEdge destination b))
             (snd (exceededEdge destination b)) of
        NoIntersection \<Rightarrow> Inl ShouldHaveIntersection
      | Intersects (PointIntersection q) \<Rightarrow> Inr q
      | Intersects (IntervalIntersection s e) \<Rightarrow> Inr e
      | Intersects OtherIntersection \<Rightarrow> Inl UnknownIntersectionType)"
  using assms
  by (auto simp: clampingV2_def Let_def exceededEdge_def twoEdgesExceeded_def)

lemma contract_gives_point:
  assumes "isIntersectionOf r a d s e" "\<exists>p. onSegment p a d \<and> onSegment p s e"
  shows "\<exists>p. (case r of
        NoIntersection \<Rightarrow> Inl ShouldHaveIntersection
      | Intersects (PointIntersection q) \<Rightarrow> Inr q
      | Intersects (IntervalIntersection s' e') \<Rightarrow> Inr e'
      | Intersects OtherIntersection \<Rightarrow> Inl UnknownIntersectionType) = Inr p
    \<and> onSegment p a d \<and> onSegment p s e
    \<and> (r = Intersects (PointIntersection p) \<or> (\<exists>s'. r = Intersects (IntervalIntersection s' p)))"
proof (cases r)
  case NoIntersection
  then show ?thesis using assms by (simp add: isIntersectionOf_def)
next
  case (Intersects i)
  then show ?thesis using assms(1) by (cases i) (simp_all add: isIntersectionOf_def)
qed

text \<open>
  C5. Let the origin lie within the position boundary (so the boundary's minimum is at
  most its maximum on both axes) and the destination outside it, and let the
  intersection function answer the one call \<open>clampingV2\<close> makes as a segment
  intersection does. When the destination exceeds two adjacent edges, \<open>clampingV2\<close>
  returns their corner. Otherwise it returns the one point that the segment from the
  origin to the destination and the exceeded edge share: the point of a point
  intersection, or the end point of an interval intersection. It never fails with
  "should have intersection but cannot calculate one".
\<close>

theorem clampingV2_origin_inside:
  assumes inside: "liesWithin origin b" and outside: "\<not> liesWithin destination b"
    and contract:
      "isIntersectionOf
         (isect origin destination (fst (exceededEdge destination b))
            (snd (exceededEdge destination b)))
         origin destination (fst (exceededEdge destination b))
         (snd (exceededEdge destination b))"
  shows "(y destination > y (max_pos b) \<and> x destination > x (max_pos b) \<longrightarrow>
            clampingV2 isect origin destination b =
              Inr \<lparr>x = x (max_pos b), y = y (max_pos b)\<rparr>)
    \<and> (y destination > y (max_pos b) \<and> x destination < x (min_pos b) \<longrightarrow>
            clampingV2 isect origin destination b =
              Inr \<lparr>x = x (min_pos b), y = y (max_pos b)\<rparr>)
    \<and> (y destination < y (min_pos b) \<and> x destination > x (max_pos b) \<longrightarrow>
            clampingV2 isect origin destination b =
              Inr \<lparr>x = x (max_pos b), y = y (min_pos b)\<rparr>)
    \<and> (y destination < y (min_pos b) \<and> x destination < x (min_pos b) \<longrightarrow>
            clampingV2 isect origin destination b =
              Inr \<lparr>x = x (min_pos b), y = y (min_pos b)\<rparr>)
    \<and> (\<not> twoEdgesExceeded destination b \<longrightarrow>
          (\<exists>p. clampingV2 isect origin destination b = Inr p
             \<and> onSegment p origin destination
             \<and> onSegment p (fst (exceededEdge destination b))
                  (snd (exceededEdge destination b))
             \<and> (\<forall>q. onSegment q origin destination
                    \<and> onSegment q (fst (exceededEdge destination b))
                         (snd (exceededEdge destination b)) \<longrightarrow> q = p)
             \<and> (isect origin destination (fst (exceededEdge destination b))
                    (snd (exceededEdge destination b)) = Intersects (PointIntersection p)
                \<or> (\<exists>s. isect origin destination (fst (exceededEdge destination b))
                    (snd (exceededEdge destination b))
                      = Intersects (IntervalIntersection s p)))))
    \<and> clampingV2 isect origin destination b \<noteq> Inl ShouldHaveIntersection"
proof -
  have out: "\<not> withinPositionBoundary destination b"
    using outside by (simp add: withinPositionBoundary_iff)
  have ordered: "x (min_pos b) \<le> x (max_pos b)" "y (min_pos b) \<le> y (max_pos b)"
    using inside by (auto simp: liesWithin_def)
  have corners:
    "(y destination > y (max_pos b) \<and> x destination > x (max_pos b) \<longrightarrow>
            clampingV2 isect origin destination b =
              Inr \<lparr>x = x (max_pos b), y = y (max_pos b)\<rparr>)
    \<and> (y destination > y (max_pos b) \<and> x destination < x (min_pos b) \<longrightarrow>
            clampingV2 isect origin destination b =
              Inr \<lparr>x = x (min_pos b), y = y (max_pos b)\<rparr>)
    \<and> (y destination < y (min_pos b) \<and> x destination > x (max_pos b) \<longrightarrow>
            clampingV2 isect origin destination b =
              Inr \<lparr>x = x (max_pos b), y = y (min_pos b)\<rparr>)
    \<and> (y destination < y (min_pos b) \<and> x destination < x (min_pos b) \<longrightarrow>
            clampingV2 isect origin destination b =
              Inr \<lparr>x = x (min_pos b), y = y (min_pos b)\<rparr>)"
    using out ordered by (simp add: clampingV2_def Let_def)
  have single: "\<exists>p. clampingV2 isect origin destination b = Inr p
             \<and> onSegment p origin destination
             \<and> onSegment p (fst (exceededEdge destination b))
                  (snd (exceededEdge destination b))
             \<and> (\<forall>q. onSegment q origin destination
                    \<and> onSegment q (fst (exceededEdge destination b))
                         (snd (exceededEdge destination b)) \<longrightarrow> q = p)
             \<and> (isect origin destination (fst (exceededEdge destination b))
                    (snd (exceededEdge destination b)) = Intersects (PointIntersection p)
                \<or> (\<exists>s. isect origin destination (fst (exceededEdge destination b))
                    (snd (exceededEdge destination b))
                      = Intersects (IntervalIntersection s p)))"
    if one: "\<not> twoEdgesExceeded destination b"
  proof -
    from contract_gives_point [OF contract exceededEdge_crossed [OF inside outside one]]
    obtain p where p:
      "clampingV2 isect origin destination b = Inr p
       \<and> onSegment p origin destination
       \<and> onSegment p (fst (exceededEdge destination b)) (snd (exceededEdge destination b))
       \<and> (isect origin destination (fst (exceededEdge destination b))
              (snd (exceededEdge destination b)) = Intersects (PointIntersection p)
           \<or> (\<exists>s. isect origin destination (fst (exceededEdge destination b))
              (snd (exceededEdge destination b)) = Intersects (IntervalIntersection s p)))"
      unfolding clampingV2_single_edge [OF out one] ..
    from p have r: "clampingV2 isect origin destination b = Inr p"
      and p1: "onSegment p origin destination"
      and p2: "onSegment p (fst (exceededEdge destination b))
        (snd (exceededEdge destination b))"
      and kind: "isect origin destination (fst (exceededEdge destination b))
              (snd (exceededEdge destination b)) = Intersects (PointIntersection p)
           \<or> (\<exists>s. isect origin destination (fst (exceededEdge destination b))
              (snd (exceededEdge destination b)) = Intersects (IntervalIntersection s p))"
      by (rule conjunct1, rule conjunct1 [OF conjunct2],
          rule conjunct1 [OF conjunct2 [OF conjunct2]],
          rule conjunct2 [OF conjunct2 [OF conjunct2]])
    have uniq: "\<forall>q. onSegment q origin destination
        \<and> onSegment q (fst (exceededEdge destination b))
             (snd (exceededEdge destination b)) \<longrightarrow> q = p"
    proof (intro allI impI, elim conjE)
      fix q
      assume q1: "onSegment q origin destination"
        and q2: "onSegment q (fst (exceededEdge destination b))
          (snd (exceededEdge destination b))"
      show "q = p"
        by (rule exceededEdge_crossed_once [OF inside outside one q1 q2 p1 p2])
    qed
    show ?thesis
      using r p1 p2 uniq kind by (intro exI [of _ p] conjI) assumption+
  qed
  have no_error: "clampingV2 isect origin destination b \<noteq> Inl ShouldHaveIntersection"
  proof (cases "twoEdgesExceeded destination b")
    case True
    then show ?thesis using corners by (auto simp: twoEdgesExceeded_def)
  next
    case False
    from single [OF False] obtain p where
      "clampingV2 isect origin destination b = Inr p" by (elim exE conjE)
    then show ?thesis by simp
  qed
  have single_imp: "\<not> twoEdgesExceeded destination b \<longrightarrow>
          (\<exists>p. clampingV2 isect origin destination b = Inr p
             \<and> onSegment p origin destination
             \<and> onSegment p (fst (exceededEdge destination b))
                  (snd (exceededEdge destination b))
             \<and> (\<forall>q. onSegment q origin destination
                    \<and> onSegment q (fst (exceededEdge destination b))
                         (snd (exceededEdge destination b)) \<longrightarrow> q = p)
             \<and> (isect origin destination (fst (exceededEdge destination b))
                    (snd (exceededEdge destination b)) = Intersects (PointIntersection p)
                \<or> (\<exists>s. isect origin destination (fst (exceededEdge destination b))
                    (snd (exceededEdge destination b))
                      = Intersects (IntervalIntersection s p))))"
    by (rule impI) (rule single)
  from corners single_imp no_error show ?thesis
    by (elim conjE) (intro conjI; assumption)
qed

theorem clampingV2_origin_inside_witness:
  "liesWithin \<lparr>x = 0, y = 0\<rparr> \<lparr>min_pos = \<lparr>x = - 10, y = - 10\<rparr>, max_pos = \<lparr>x = 10, y = 10\<rparr>\<rparr>
   \<and> \<not> liesWithin \<lparr>x = 20, y = 5\<rparr>
         \<lparr>min_pos = \<lparr>x = - 10, y = - 10\<rparr>, max_pos = \<lparr>x = 10, y = 10\<rparr>\<rparr>
   \<and> \<not> twoEdgesExceeded \<lparr>x = 20, y = 5\<rparr>
         \<lparr>min_pos = \<lparr>x = - 10, y = - 10\<rparr>, max_pos = \<lparr>x = 10, y = 10\<rparr>\<rparr>
   \<and> crossingIntersection \<lparr>x = 0, y = 0\<rparr> \<lparr>x = 20, y = 5\<rparr> \<lparr>x = 10, y = - 10\<rparr>
        \<lparr>x = 10, y = 10\<rparr> = Intersects (PointIntersection \<lparr>x = 10, y = 5 / 2\<rparr>)
   \<and> clampingV2 crossingIntersection \<lparr>x = 0, y = 0\<rparr> \<lparr>x = 20, y = 5\<rparr>
        \<lparr>min_pos = \<lparr>x = - 10, y = - 10\<rparr>, max_pos = \<lparr>x = 10, y = 10\<rparr>\<rparr>
       = Inr \<lparr>x = 10, y = 5 / 2\<rparr>"
proof -
  let ?b = "\<lparr>min_pos = \<lparr>x = - 10, y = - 10\<rparr>, max_pos = \<lparr>x = 10, y = 10\<rparr>\<rparr>"
  let ?o = "\<lparr>x = 0, y = 0\<rparr>"
  let ?d = "\<lparr>x = 20, y = 5\<rparr>"
  have inside: "liesWithin ?o ?b" by (simp add: liesWithin_def)
  have outside: "\<not> liesWithin ?d ?b" by (simp add: liesWithin_def)
  have one: "\<not> twoEdgesExceeded ?d ?b" by (simp add: twoEdgesExceeded_def)
  have edge: "exceededEdge ?d ?b = (\<lparr>x = 10, y = - 10\<rparr>, \<lparr>x = 10, y = 10\<rparr>)"
    by (simp add: exceededEdge_def)
  have hit: "crossingIntersection ?o ?d \<lparr>x = 10, y = - 10\<rparr> \<lparr>x = 10, y = 10\<rparr>
      = Intersects (PointIntersection \<lparr>x = 10, y = 5 / 2\<rparr>)"
    by (simp add: crossingIntersection_def Let_def)
  have contract: "isIntersectionOf
      (crossingIntersection ?o ?d (fst (exceededEdge ?d ?b)) (snd (exceededEdge ?d ?b)))
      ?o ?d (fst (exceededEdge ?d ?b)) (snd (exceededEdge ?d ?b))"
    by (simp add: edge hit isIntersectionOf_def onSegment_def)
  note single = clampingV2_origin_inside
    [where isect = crossingIntersection, OF inside outside contract,
      THEN conjunct2, THEN conjunct2, THEN conjunct2, THEN conjunct2, THEN conjunct1,
      THEN mp, OF one]
  from single obtain p where
    r: "clampingV2 crossingIntersection ?o ?d ?b = Inr p"
    and kind: "crossingIntersection ?o ?d (fst (exceededEdge ?d ?b)) (snd (exceededEdge ?d ?b))
            = Intersects (PointIntersection p)
          \<or> (\<exists>s. crossingIntersection ?o ?d (fst (exceededEdge ?d ?b))
                (snd (exceededEdge ?d ?b)) = Intersects (IntervalIntersection s p))"
    by (elim exE conjE)
  from kind have "p = \<lparr>x = 10, y = 5 / 2\<rparr>"
    by (simp add: edge hit)
  with r have "clampingV2 crossingIntersection ?o ?d ?b = Inr \<lparr>x = 10, y = 5 / 2\<rparr>"
    by simp
  with inside outside one hit show ?thesis
    by (intro conjI)
qed

subsection \<open>Clamping the entire viewport\<close>

lemma largestMagnitude_mem: "largestMagnitude vs cur \<in> set (cur # vs)"
  by (induction vs arbitrary: cur) auto

lemma largestMagnitude_ge_cur: "abs cur \<le> abs (largestMagnitude vs cur)"
proof (induction vs arbitrary: cur)
  case Nil
  then show ?case by simp
next
  case (Cons v vs)
  have "abs cur \<le> abs (if abs v > abs cur then v else cur)" by simp
  also have "\<dots> \<le> abs (largestMagnitude vs (if abs v > abs cur then v else cur))"
    by (rule Cons.IH)
  finally show ?case by simp
qed

lemma largestMagnitude_ge: "v \<in> set (cur # vs) \<Longrightarrow> abs v \<le> abs (largestMagnitude vs cur)"
proof (induction vs arbitrary: cur)
  case Nil
  then show ?case by simp
next
  case (Cons u us)
  let ?c = "if abs u > abs cur then u else cur"
  from Cons.prems consider "v = cur" | "v = u" | "v \<in> set us" by auto
  then show ?case
  proof cases
    case 1
    have "abs cur \<le> abs ?c" by simp
    also have "\<dots> \<le> abs (largestMagnitude us ?c)" by (rule largestMagnitude_ge_cur)
    finally show ?thesis using 1 by simp
  next
    case 2
    have "abs u \<le> abs ?c" by simp
    also have "\<dots> \<le> abs (largestMagnitude us ?c)" by (rule largestMagnitude_ge_cur)
    finally show ?thesis using 2 by simp
  next
    case 3
    then have "v \<in> set (?c # us)" by simp
    then have "abs v \<le> abs (largestMagnitude us ?c)" by (rule Cons.IH)
    then show ?thesis by simp
  qed
qed

lemma diffStep_first:
  "diffStep 0 (\<lparr>x = a, y = b\<rparr> # ds, abs a, abs b) = (\<lparr>x = a, y = b\<rparr> # ds, abs a, abs b)"
  by simp

lemma diffStep_later:
  "diffStep (Suc i) (\<lparr>x = a, y = b\<rparr> # ds, abs a, abs b) =
     (\<lparr>x = if abs (x (ds ! i)) > abs a then x (ds ! i) else a,
       y = if abs (y (ds ! i)) > abs b then y (ds ! i) else b\<rparr> # ds,
      abs (if abs (x (ds ! i)) > abs a then x (ds ! i) else a),
      abs (if abs (y (ds ! i)) > abs b then y (ds ! i) else b))"
  by (simp add: Let_def)

lemma fold_diffStep_four:
  "fold diffStep [0 ..< length [d0, d1, d2, d3]] ([d0, d1, d2, d3], abs (x d0), abs (y d0)) =
     (\<lparr>x = largestMagnitude [x d1, x d2, x d3] (x d0),
       y = largestMagnitude [y d1, y d2, y d3] (y d0)\<rparr> # [d1, d2, d3],
      abs (largestMagnitude [x d1, x d2, x d3] (x d0)),
      abs (largestMagnitude [y d1, y d2, y d3] (y d0)))"
proof (cases d0)
  case (fields a b)
  have upt: "[0 ..< length [e, d1, d2, d3]] = [0, Suc 0, Suc (Suc 0), Suc (Suc (Suc 0))]"
    for e :: Point
    by (simp add: upt_rec)
  show ?thesis
    unfolding fields upt
    by (simp only: fold_simps comp_apply diffStep_first diffStep_later
        nth_Cons_0 nth_Cons_Suc largestMagnitude.simps Point.simps)
qed

lemma clampingEntireViewPort_eq:
  "clampingEntireViewPort w h target r z b =
     (if viewPortWithinPositionBoundary w h target z r b then target
      else vectorAddition
        \<lparr>x = largestMagnitude (map x (tl (cornerDeltas w h target r z b)))
               (x (hd (cornerDeltas w h target r z b))),
         y = largestMagnitude (map y (tl (cornerDeltas w h target r z b)))
               (y (hd (cornerDeltas w h target r z b)))\<rparr> target)"
  by (simp only: clampingEntireViewPort_def viewPortWithinPositionBoundary_def Let_def
      cornerDeltas_def viewPortCorners_def nth_Cons_0 fold_diffStep_four prod.case
      list.map list.sel)

text \<open>
  C7. At a zoom level that is not zero: when all four corners of the viewport at the
  target position lie within the position boundary, \<open>clampingEntireViewPort\<close> returns
  the target. Otherwise it returns the target moved by one delta, whose x coordinate is
  the x coordinate of a corner's clamped-minus-original difference and is of greatest
  absolute value among the four, and whose y coordinate is so among the y coordinates.
\<close>

theorem clampingEntireViewPort_largest_deltas:
  assumes "z \<noteq> 0"
  shows "((\<forall>corner \<in> set (viewPortCorners w h).
            liesWithin (transformViewPort2WorldSpaceWithCameraAttributes corner target z r) b)
          \<longrightarrow> clampingEntireViewPort w h target r z b = target)
    \<and> (\<not> (\<forall>corner \<in> set (viewPortCorners w h).
            liesWithin (transformViewPort2WorldSpaceWithCameraAttributes corner target z r) b)
          \<longrightarrow> (\<exists>dx \<in> set (map x (cornerDeltas w h target r z b)).
               \<exists>dy \<in> set (map y (cornerDeltas w h target r z b)).
                 (\<forall>d \<in> set (cornerDeltas w h target r z b).
                    abs (x d) \<le> abs dx \<and> abs (y d) \<le> abs dy)
                 \<and> clampingEntireViewPort w h target r z b =
                     vectorAddition \<lparr>x = dx, y = dy\<rparr> target))"
proof -
  let ?ds = "cornerDeltas w h target r z b"
  let ?dx = "largestMagnitude (map x (tl ?ds)) (x (hd ?ds))"
  let ?dy = "largestMagnitude (map y (tl ?ds)) (y (hd ?ds))"
  have ne: "?ds = hd ?ds # tl ?ds"
    by (simp add: cornerDeltas_def viewPortCorners_def)
  have xs: "map x ?ds = x (hd ?ds) # map x (tl ?ds)"
    by (subst ne) simp
  have ys: "map y ?ds = y (hd ?ds) # map y (tl ?ds)"
    by (subst ne) simp
  have dx_mem: "?dx \<in> set (map x ?ds)"
    unfolding xs by (rule largestMagnitude_mem)
  have dy_mem: "?dy \<in> set (map y ?ds)"
    unfolding ys by (rule largestMagnitude_mem)
  have dx_max: "abs (x d) \<le> abs ?dx" if "d \<in> set ?ds" for d
  proof -
    from that have "x d \<in> set (map x ?ds)" by simp
    then have "x d \<in> set (x (hd ?ds) # map x (tl ?ds))" unfolding xs .
    then show ?thesis by (rule largestMagnitude_ge)
  qed
  have dy_max: "abs (y d) \<le> abs ?dy" if "d \<in> set ?ds" for d
  proof -
    from that have "y d \<in> set (map y ?ds)" by simp
    then have "y d \<in> set (y (hd ?ds) # map y (tl ?ds))" unfolding ys .
    then show ?thesis by (rule largestMagnitude_ge)
  qed
  have inside: "clampingEntireViewPort w h target r z b = target"
    if "viewPortWithinPositionBoundary w h target z r b"
    using that by (simp add: clampingEntireViewPort_eq)
  have outside: "clampingEntireViewPort w h target r z b =
      vectorAddition \<lparr>x = ?dx, y = ?dy\<rparr> target"
    if "\<not> viewPortWithinPositionBoundary w h target z r b"
    using that by (simp add: clampingEntireViewPort_eq)
  show ?thesis
    unfolding viewPortWithinPositionBoundary_iff [symmetric]
    using inside outside dx_mem dy_mem dx_max dy_max by blast
qed

theorem clampingEntireViewPort_largest_deltas_witness:
  "(1::real) \<noteq> 0
   \<and> clampingEntireViewPort 4 2 \<lparr>x = 0, y = 0\<rparr> 0 1
        \<lparr>min_pos = \<lparr>x = - 10, y = - 10\<rparr>, max_pos = \<lparr>x = 10, y = 10\<rparr>\<rparr> = \<lparr>x = 0, y = 0\<rparr>
   \<and> \<not> liesWithin (transformViewPort2WorldSpaceWithCameraAttributes \<lparr>x = 2, y = 1\<rparr>
          \<lparr>x = 9, y = 0\<rparr> 1 0) \<lparr>min_pos = \<lparr>x = - 10, y = - 10\<rparr>, max_pos = \<lparr>x = 10, y = 10\<rparr>\<rparr>
   \<and> cornerDeltas 4 2 \<lparr>x = 9, y = 0\<rparr> 0 1
        \<lparr>min_pos = \<lparr>x = - 10, y = - 10\<rparr>, max_pos = \<lparr>x = 10, y = 10\<rparr>\<rparr>
       = [\<lparr>x = 0, y = 0\<rparr>, \<lparr>x = - 1, y = 0\<rparr>, \<lparr>x = 0, y = 0\<rparr>, \<lparr>x = - 1, y = 0\<rparr>]
   \<and> clampingEntireViewPort 4 2 \<lparr>x = 9, y = 0\<rparr> 0 1
        \<lparr>min_pos = \<lparr>x = - 10, y = - 10\<rparr>, max_pos = \<lparr>x = 10, y = 10\<rparr>\<rparr> = \<lparr>x = 8, y = 0\<rparr>"
proof -
  let ?b = "\<lparr>min_pos = \<lparr>x = - 10, y = - 10\<rparr>, max_pos = \<lparr>x = 10, y = 10\<rparr>\<rparr>"
  have one: "(1::real) \<noteq> 0" by simp
  have inside: "\<forall>corner \<in> set (viewPortCorners 4 2).
      liesWithin (transformViewPort2WorldSpaceWithCameraAttributes corner \<lparr>x = 0, y = 0\<rparr> 1 0) ?b"
    by (simp add: camera_eval)
  have out1: "\<not> liesWithin (transformViewPort2WorldSpaceWithCameraAttributes \<lparr>x = 2, y = 1\<rparr>
          \<lparr>x = 9, y = 0\<rparr> 1 0) ?b"
    by (simp add: camera_eval)
  have outside: "\<not> (\<forall>corner \<in> set (viewPortCorners 4 2).
      liesWithin (transformViewPort2WorldSpaceWithCameraAttributes corner \<lparr>x = 9, y = 0\<rparr> 1 0) ?b)"
    by (simp add: camera_eval)
  have ds: "cornerDeltas 4 2 \<lparr>x = 9, y = 0\<rparr> 0 1 ?b
       = [\<lparr>x = 0, y = 0\<rparr>, \<lparr>x = - 1, y = 0\<rparr>, \<lparr>x = 0, y = 0\<rparr>, \<lparr>x = - 1, y = 0\<rparr>]"
    by (simp add: cornerDeltas_def simpleClamping_def camera_eval)
  have r1: "clampingEntireViewPort 4 2 \<lparr>x = 0, y = 0\<rparr> 0 1 ?b = \<lparr>x = 0, y = 0\<rparr>"
    using clampingEntireViewPort_largest_deltas [OF one, of 4 2 "\<lparr>x = 0, y = 0\<rparr>" 0 ?b] inside
    by blast
  have r2: "clampingEntireViewPort 4 2 \<lparr>x = 9, y = 0\<rparr> 0 1 ?b = \<lparr>x = 8, y = 0\<rparr>"
    using clampingEntireViewPort_largest_deltas [OF one, of 4 2 "\<lparr>x = 9, y = 0\<rparr>" 0 ?b] outside
    unfolding ds by (auto simp: vectorAddition_def)
  show ?thesis using one r1 out1 ds r2 by blast
qed

subsection \<open>The minimum zoom level\<close>

text \<open>
  C8. For a viewport of width \<open>w\<close> and height \<open>h\<close> and a position boundary of positive
  extent on both axes, \<open>getMinZoomLevel\<close> is the larger of \<open>w\<close> over the boundary's
  width and \<open>h\<close> over its height; for the 500 by 500 viewport and the boundary from
  \<open>(-1000, -1000)\<close> to \<open>(1000, 1000)\<close> it is \<open>0.25\<close>.
\<close>

theorem getMinZoomLevel_max:
  "(x (min_pos b) < x (max_pos b) \<and> y (min_pos b) < y (max_pos b) \<longrightarrow>
      getMinZoomLevel w h b =
        max (w / (x (max_pos b) - x (min_pos b))) (h / (y (max_pos b) - y (min_pos b))))
   \<and> getMinZoomLevel 500 500
        \<lparr>min_pos = \<lparr>x = - 1000, y = - 1000\<rparr>, max_pos = \<lparr>x = 1000, y = 1000\<rparr>\<rparr> = 0.25"
  by (simp add: getMinZoomLevel_def Let_def max_def)

theorem getMinZoomLevel_max_witness:
  "x (min_pos \<lparr>min_pos = \<lparr>x = 0, y = 0\<rparr>, max_pos = \<lparr>x = 4, y = 2\<rparr>\<rparr>)
     < x (max_pos \<lparr>min_pos = \<lparr>x = 0, y = 0\<rparr>, max_pos = \<lparr>x = 4, y = 2\<rparr>\<rparr>)
   \<and> y (min_pos \<lparr>min_pos = \<lparr>x = 0, y = 0\<rparr>, max_pos = \<lparr>x = 4, y = 2\<rparr>\<rparr>)
     < y (max_pos \<lparr>min_pos = \<lparr>x = 0, y = 0\<rparr>, max_pos = \<lparr>x = 4, y = 2\<rparr>\<rparr>)
   \<and> getMinZoomLevel 2 3 \<lparr>min_pos = \<lparr>x = 0, y = 0\<rparr>, max_pos = \<lparr>x = 4, y = 2\<rparr>\<rparr> = 3 / 2"
  using getMinZoomLevel_max [of "\<lparr>min_pos = \<lparr>x = 0, y = 0\<rparr>, max_pos = \<lparr>x = 4, y = 2\<rparr>\<rparr>" 2 3]
  by simp

subsection \<open>Zoom and rotation under the viewport limit\<close>

text \<open>
  C9. With \<open>limitEntireViewPort\<close> set, \<open>setZoomLevel\<close> and \<open>setRotation\<close> do not keep
  the viewport within the position boundary. There is a camera whose viewport is
  within the boundary and a smaller zoom level that \<open>setZoomLevel\<close> accepts, after
  which the viewport is not within the boundary; and there is such a camera and an
  angle that \<open>setRotation\<close> accepts with the same outcome.
\<close>

theorem zoom_and_rotation_leave_viewport:
  "(\<exists>c z. limitEntireViewPort c \<and> viewPortInside c \<and> zoomLevel c \<noteq> 0 \<and> z \<noteq> 0 \<and> z < zoomLevel c
        \<and> zoomLevel (setZoomLevel z c) = z
        \<and> cameraObserver (setZoomLevel z c) \<noteq> cameraObserver c
        \<and> \<not> viewPortInside (setZoomLevel z c))
   \<and> (\<exists>c r. limitEntireViewPort c \<and> viewPortInside c \<and> zoomLevel c \<noteq> 0
        \<and> rotation (setRotation r c) = r
        \<and> cameraObserver (setRotation r c) \<noteq> cameraObserver c
        \<and> \<not> viewPortInside (setRotation r c))"
proof (intro conjI)
  show "\<exists>c z. limitEntireViewPort c \<and> viewPortInside c \<and> zoomLevel c \<noteq> 0 \<and> z \<noteq> 0 \<and> z < zoomLevel c
        \<and> zoomLevel (setZoomLevel z c) = z
        \<and> cameraObserver (setZoomLevel z c) \<noteq> cameraObserver c
        \<and> \<not> viewPortInside (setZoomLevel z c)"
    by (rule exI [of _ wideCamera], rule exI [of _ "1 / 2"])
      (simp add: wideCamera_def newCamera_def viewPortInside_def setZoomLevel_def
        withinZoomLevelBoundary_def notifyZoom_def snapshotOf_def Let_def
        viewPortWithinPositionBoundary_def withinPositionBoundary_def
        transformViewPort2WorldSpaceWithCameraAttributes_def multiplyByScalar_def
        rotateVector_def vectorAddition_def)
  show "\<exists>c r. limitEntireViewPort c \<and> viewPortInside c \<and> zoomLevel c \<noteq> 0
        \<and> rotation (setRotation r c) = r
        \<and> cameraObserver (setRotation r c) \<noteq> cameraObserver c
        \<and> \<not> viewPortInside (setRotation r c)"
    by (rule exI [of _ wideCamera], rule exI [of _ "pi / 2"])
      (simp add: wideCamera_def newCamera_def viewPortInside_def setRotation_def
        notifyRotate_def snapshotOf_def Let_def normalizeAngle_pi_half
        viewPortWithinPositionBoundary_def withinPositionBoundary_def
        transformViewPort2WorldSpaceWithCameraAttributes_def multiplyByScalar_def
        rotateVector_def vectorAddition_def)
qed

end
